theory Spec2Isabelle
  imports Complex_Main "HOL-Library.Sublist" "HOL-Library.AList" "HOL-Library.Log_Nat"
begin

section \<open>Strings\<close>

text \<open>
  Query strings and mechanic names are modelled as \<open>string\<close>, one \<open>char\<close> per code unit.
  \<open>toLowerCase\<close> maps the letters \<open>A\<close>..\<open>Z\<close> to \<open>a\<close>..\<open>z\<close> and leaves every other
  code unit alone, which is what \<^verbatim>\<open>String.prototype.toLowerCase\<close> does on ASCII text.
  \<open>includes_str s sub\<close> is \<^verbatim>\<open>s.includes(sub)\<close>: \<open>sub\<close> occurs in \<open>s\<close> as a contiguous block.
\<close>

definition toLowerChar :: "char \<Rightarrow> char" where
  "toLowerChar c =
     (case map_of (zip ''ABCDEFGHIJKLMNOPQRSTUVWXYZ'' ''abcdefghijklmnopqrstuvwxyz'') c of
        Some l \<Rightarrow> l
      | None \<Rightarrow> c)"

definition toLowerCase :: "string \<Rightarrow> string" where
  "toLowerCase s = map toLowerChar s"

fun startsWith :: "string \<Rightarrow> string \<Rightarrow> bool" where
  "startsWith s [] = True"
| "startsWith [] (p # ps) = False"
| "startsWith (c # cs) (p # ps) = (c = p \<and> startsWith cs ps)"

fun includes_str :: "string \<Rightarrow> string \<Rightarrow> bool" where
  "includes_str [] sub = (sub = [])"
| "includes_str (c # cs) sub = (startsWith (c # cs) sub \<or> includes_str cs sub)"

section \<open>Double-precision numbers\<close>

text \<open>
  A JavaScript number is an IEEE 754 binary64 value. A finite double is modelled as the
  real number it denotes, and an operation on doubles as the exact operation followed by
  rounding to the nearest double, ties to the even significand. \<open>binade x\<close> is the
  exponent \<open>e\<close> with \<open>2^e \<le> x < 2^(e+1)\<close>; a double in that binade is a multiple of
  \<open>2^(e-52)\<close>, and below \<open>2^(-1022)\<close> (the subnormal range) of \<open>2^(-1074)\<close>.
  \<open>double_round\<close> of a decimal is the double that a numeric literal or a JSON number of
  that decimal denotes; \<open>double_add\<close> is \<^verbatim>\<open>+\<close> on two doubles. Rounding to infinity is
  left out: the sums formed here add 0.8 or 0.3 to a finite double and cannot overflow.
\<close>

definition pow2 :: "int \<Rightarrow> real" where
  "pow2 n = (if 0 \<le> n then 2 ^ nat n else 1 / 2 ^ nat (- n))"

definition binade :: "real \<Rightarrow> int" where
  "binade x = (if 1 \<le> x then bitlen \<lfloor>x\<rfloor> - 1 else - bitlen (\<lceil>1 / x\<rceil> - 1))"

definition round_half_even :: "real \<Rightarrow> int" where
  "round_half_even x =
     (let f = \<lfloor>x\<rfloor>; d = x - of_int f in
      if d < 1 / 2 then f
      else if 1 / 2 < d then f + 1
      else if even f then f else f + 1)"

definition double_round :: "real \<Rightarrow> real" where
  "double_round x =
     (if x = 0 then 0
      else (let e = max (binade \<bar>x\<bar>) (- 1022);
                ulp = pow2 (e - 52)
            in of_int (round_half_even (x / ulp)) * ulp))"

definition double_add :: "real \<Rightarrow> real \<Rightarrow> real" where
  "double_add x y = double_round (x + y)"

section \<open>Query interpretation: \<^verbatim>\<open>detectEncounterPosition\<close>\<close>

datatype position = First | Second | Third | Last | Final

record position_spec =
  position :: position
  orderNumber :: "int option"
  isBossQuery :: "bool option"

definition detectEncounterPosition :: "string \<Rightarrow> position_spec option" where
  "detectEncounterPosition query =
     (let queryLower = toLowerCase query in
      if includes_str queryLower ''final boss'' \<or> includes_str queryLower ''last boss''
        then Some \<lparr>position = Final, orderNumber = None, isBossQuery = Some True\<rparr>
      else if includes_str queryLower ''final encounter'' \<or> includes_str queryLower ''last encounter''
        then Some \<lparr>position = Final, orderNumber = None, isBossQuery = Some False\<rparr>
      else if includes_str queryLower ''first boss'' \<or> includes_str queryLower ''1st boss''
        then Some \<lparr>position = First, orderNumber = None, isBossQuery = Some True\<rparr>
      else if includes_str queryLower ''first encounter'' \<or> includes_str queryLower ''1st encounter''
        then Some \<lparr>position = First, orderNumber = Some 1, isBossQuery = Some False\<rparr>
      else if includes_str queryLower ''second boss'' \<or> includes_str queryLower ''2nd boss''
        then Some \<lparr>position = Second, orderNumber = None, isBossQuery = Some True\<rparr>
      else if includes_str queryLower ''second encounter'' \<or> includes_str queryLower ''2nd encounter''
        then Some \<lparr>position = Second, orderNumber = Some 2, isBossQuery = Some False\<rparr>
      else if includes_str queryLower ''third boss'' \<or> includes_str queryLower ''3rd boss''
        then Some \<lparr>position = Third, orderNumber = None, isBossQuery = Some True\<rparr>
      else if includes_str queryLower ''third encounter'' \<or> includes_str queryLower ''3rd encounter''
        then Some \<lparr>position = Third, orderNumber = Some 3, isBossQuery = Some False\<rparr>
      else None)"

text \<open>
  The specification's reading of the same operation: an ordered table of phrase pairs, each
  with its result, scanned from the top; the first row with a phrase occurring in the
  lower-cased query decides.
\<close>

definition position_table :: "(string list \<times> position_spec) list" where
  "position_table =
     [([''final boss'', ''last boss''],
         \<lparr>position = Final, orderNumber = None, isBossQuery = Some True\<rparr>),
      ([''final encounter'', ''last encounter''],
         \<lparr>position = Final, orderNumber = None, isBossQuery = Some False\<rparr>),
      ([''first boss'', ''1st boss''],
         \<lparr>position = First, orderNumber = None, isBossQuery = Some True\<rparr>),
      ([''first encounter'', ''1st encounter''],
         \<lparr>position = First, orderNumber = Some 1, isBossQuery = Some False\<rparr>),
      ([''second boss'', ''2nd boss''],
         \<lparr>position = Second, orderNumber = None, isBossQuery = Some True\<rparr>),
      ([''second encounter'', ''2nd encounter''],
         \<lparr>position = Second, orderNumber = Some 2, isBossQuery = Some False\<rparr>),
      ([''third boss'', ''3rd boss''],
         \<lparr>position = Third, orderNumber = None, isBossQuery = Some True\<rparr>),
      ([''third encounter'', ''3rd encounter''],
         \<lparr>position = Third, orderNumber = Some 3, isBossQuery = Some False\<rparr>)]"

fun first_match :: "(string list \<times> position_spec) list \<Rightarrow> string \<Rightarrow> position_spec option" where
  "first_match [] s = None"
| "first_match ((phrases, r) # rows) s =
     (if list_ex (includes_str s) phrases then Some r else first_match rows s)"

definition interpret_position :: "string \<Rightarrow> position_spec option" where
  "interpret_position query = first_match position_table (toLowerCase query)"

section \<open>Data model\<close>

text \<open>
  The records follow \<^verbatim>\<open>types.ts\<close>. An optional field is an \<open>option\<close>. Encounter orders
  and \<^verbatim>\<open>topK\<close> are integers; a similarity score is a finite double, given as the real
  number it denotes (never NaN: \<^verbatim>\<open>searchSimilar\<close> replaces a missing, zero or NaN score
  by 0). The string-valued
  categories stay strings, because the metadata of a vector record carries them as
  arbitrary strings and they flow into a result unchecked.
\<close>

datatype raid_type = raid | dungeon

record mechanic =
  m_id :: string
  m_name :: string
  m_description :: string
  m_type :: string
  m_solution :: "string option"
  m_tips :: "string list option"
  m_relatedMechanics :: "string list option"
  m_difficulty :: "string option"
  m_contestModeSpecific :: "bool option"
  m_contestModeNotes :: "string option"

record encounter =
  e_id :: string
  e_name :: string
  e_description :: string
  e_type :: string
  e_mechanics :: "mechanic list"
  e_order :: "int option"

record dungeon_raid =
  d_id :: string
  d_name :: string
  d_type :: raid_type
  d_description :: string
  d_encounters :: "encounter list"
  d_releaseDate :: "string option"
  d_contestModeDate :: "string option"

record vector_metadata =
  mechanicId :: string
  mechanicName :: string
  encounterId :: string
  encounterName :: string
  encounterOrder :: "int option"
  dungeonRaidId :: string
  dungeonRaidName :: string
  dungeonRaidType :: raid_type
  mechanicType :: string
  encounterType :: string
  difficulty :: "string option"
  contestModeSpecific :: "bool option"

record dungeon_ref =
  dr_id :: string
  dr_name :: string
  dr_type :: raid_type

record search_result =
  r_id :: string
  r_score :: real
  r_mechanic :: mechanic
  r_encounter :: encounter
  r_dungeonRaid :: dungeon_ref

record search_filter =
  f_dungeonRaidName :: "string option"
  f_encounterType :: "string option"
  f_mechanicType :: "string option"
  f_difficulty :: "string option"
  f_contestModeSpecific :: "bool option"
  f_encounterOrder :: "int option"

record search_options =
  o_filter :: "search_filter option"
  o_topK :: "int option"

text \<open>JavaScript truthiness of an optional string and of an optional number.\<close>

fun truthy_string :: "string option \<Rightarrow> bool" where
  "truthy_string None = False"
| "truthy_string (Some s) = (s \<noteq> [])"

fun truthy_number :: "int option \<Rightarrow> bool" where
  "truthy_number None = False"
| "truthy_number (Some n) = (n \<noteq> 0)"

text \<open>\<^verbatim>\<open>options.filter?.dungeonRaidName\<close> and \<^verbatim>\<open>options.topK || 10\<close>.\<close>

definition filterDungeonRaidName :: "search_options \<Rightarrow> string option" where
  "filterDungeonRaidName options =
     (case o_filter options of None \<Rightarrow> None | Some f \<Rightarrow> f_dungeonRaidName f)"

definition topK_or_10 :: "int option \<Rightarrow> int" where
  "topK_or_10 k = (case k of None \<Rightarrow> 10 | Some n \<Rightarrow> if n = 0 then 10 else n)"

section \<open>The mechanic store\<close>

text \<open>
  \<^verbatim>\<open>mechanicStore\<close> is a \<^verbatim>\<open>Map\<close> from mechanic id to a stored triple. A \<^verbatim>\<open>Map\<close>
  iterates in insertion order and \<^verbatim>\<open>set\<close> on a present key keeps its place, so the store
  is an association list and \<^verbatim>\<open>registerMechanic\<close> is \<open>AList.update\<close>. The store passed to
  the retrieval functions below is the store as \<^verbatim>\<open>loadMechanicStore\<close> left it.
\<close>

record stored =
  s_mechanic :: mechanic
  s_encounter :: encounter
  s_dungeonRaid :: dungeon_raid

type_synonym mechanic_store = "(string \<times> stored) list"

definition registerMechanic ::
  "mechanic \<Rightarrow> encounter \<Rightarrow> dungeon_raid \<Rightarrow> mechanic_store \<Rightarrow> mechanic_store" where
  "registerMechanic mechanic encounter dungeonRaid store =
     AList.update (m_id mechanic)
       \<lparr>s_mechanic = mechanic, s_encounter = encounter, s_dungeonRaid = dungeonRaid\<rparr> store"

definition store_get :: "mechanic_store \<Rightarrow> string \<Rightarrow> stored option" where
  "store_get store key = map_of store key"


section \<open>The external providers\<close>

text \<open>
  The embedding service and the vector index are outside the program. Each is a function
  from the request to what the call gives back: \<open>Inl\<close> the value it throws, \<open>Inr\<close> its
  response (for the index: \<^verbatim>\<open>getIndex\<close> followed by \<^verbatim>\<open>index.query\<close>). The two
  wrappers return, next to their outcome, the list of provider calls they made, so that
  a claim about how often a provider is called can be stated.
\<close>

datatype js_throw = Error string | NonError

record pinecone_filter =
  pf_dungeonRaidName :: "string option"
  pf_encounterType :: "string option"
  pf_mechanicType :: "string option"
  pf_difficulty :: "string option"
  pf_contestModeSpecific :: "bool option"
  pf_encounterOrder :: "int option"

record query_request =
  q_vector :: "real list"
  q_topK :: int
  q_includeMetadata :: bool
  q_filter :: "pinecone_filter option"

record pinecone_match =
  pm_id :: string
  pm_score :: "real option"
  pm_metadata :: vector_metadata

record candidate =
  c_id :: string
  c_score :: real
  c_metadata :: vector_metadata

record providers =
  embeddings_create :: "string \<Rightarrow> js_throw + real list"
  index_query :: "query_request \<Rightarrow> js_throw + pinecone_match list option"

datatype provider_call = EmbeddingsCreate string | IndexQuery query_request

definition generateEmbedding ::
  "providers \<Rightarrow> string \<Rightarrow> (js_throw + real list) \<times> provider_call list" where
  "generateEmbedding env text =
     ((case embeddings_create env text of
         Inr embedding \<Rightarrow> Inr embedding
       | Inl (Error message) \<Rightarrow> Inl (Error (''Failed to generate embedding: '' @ message))
       | Inl NonError \<Rightarrow> Inl (Error ''Failed to generate embedding'')),
      [EmbeddingsCreate text])"

definition build_filter :: "search_options \<Rightarrow> pinecone_filter" where
  "build_filter options =
     (case o_filter options of
        None \<Rightarrow> \<lparr>pf_dungeonRaidName = None, pf_encounterType = None, pf_mechanicType = None,
                 pf_difficulty = None, pf_contestModeSpecific = None, pf_encounterOrder = None\<rparr>
      | Some f \<Rightarrow>
          \<lparr>pf_dungeonRaidName =
             (if truthy_string (f_dungeonRaidName f) then f_dungeonRaidName f else None),
           pf_encounterType =
             (if truthy_string (f_encounterType f) then f_encounterType f else None),
           pf_mechanicType =
             (if truthy_string (f_mechanicType f) then f_mechanicType f else None),
           pf_difficulty =
             (if truthy_string (f_difficulty f) then f_difficulty f else None),
           pf_contestModeSpecific = f_contestModeSpecific f,
           pf_encounterOrder = f_encounterOrder f\<rparr>)"

definition filter_is_empty :: "pinecone_filter \<Rightarrow> bool" where
  "filter_is_empty f \<longleftrightarrow>
     pf_dungeonRaidName f = None \<and> pf_encounterType f = None \<and> pf_mechanicType f = None \<and>
     pf_difficulty f = None \<and> pf_contestModeSpecific f = None \<and> pf_encounterOrder f = None"

definition build_request :: "real list \<Rightarrow> search_options \<Rightarrow> query_request" where
  "build_request queryVector options =
     (let filter = build_filter options in
      \<lparr>q_vector = queryVector,
       q_topK = topK_or_10 (o_topK options),
       q_includeMetadata = True,
       q_filter = (if filter_is_empty filter then None else Some filter)\<rparr>)"

text \<open>\<^verbatim>\<open>match.score || 0\<close>: a missing or zero score is 0.\<close>

definition match_to_candidate :: "pinecone_match \<Rightarrow> candidate" where
  "match_to_candidate match =
     \<lparr>c_id = pm_id match,
      c_score = (case pm_score match of None \<Rightarrow> 0 | Some x \<Rightarrow> x),
      c_metadata = pm_metadata match\<rparr>"

definition searchSimilar ::
  "providers \<Rightarrow> real list \<Rightarrow> search_options \<Rightarrow>
     (js_throw + candidate list) \<times> provider_call list" where
  "searchSimilar env queryVector options =
     (let queryRequest = build_request queryVector options in
      ((case index_query env queryRequest of
          Inl e \<Rightarrow> Inl (Error ''Failed to search vector store'')
        | Inr None \<Rightarrow> Inr []
        | Inr (Some matches) \<Rightarrow> Inr (map match_to_candidate matches)),
       [IndexQuery queryRequest]))"

section \<open>Retrieval: \<^verbatim>\<open>retrieveRelevantMechanics\<close>\<close>

definition flowKeywords :: "string list" where
  "flowKeywords = [''flow'', ''strategy'', ''progression'', ''overall encounter'']"

definition name_is_flow :: "string \<Rightarrow> bool" where
  "name_is_flow name = (let nameLower = toLowerCase name in
     list_ex (\<lambda>keyword. includes_str nameLower keyword) flowKeywords)"

definition isEncounterFlowMechanic :: "mechanic \<Rightarrow> bool" where
  "isEncounterFlowMechanic mechanic = name_is_flow (m_name mechanic)"

definition isFinalBossQuery :: "string \<Rightarrow> bool" where
  "isFinalBossQuery query =
     (let queryLower = toLowerCase query in
      includes_str queryLower ''final boss'' \<or> includes_str queryLower ''last boss'' \<or>
      includes_str queryLower ''final encounter'')"

text \<open>\<^verbatim>\<open>encounterPosition?.position === p\<close> and \<^verbatim>\<open>encounterPosition?.isBossQuery\<close>.\<close>

definition position_is :: "position_spec option \<Rightarrow> position \<Rightarrow> bool" where
  "position_is ep p = (case ep of None \<Rightarrow> False | Some spec \<Rightarrow> position spec = p)"

definition isBossQuery_of :: "position_spec option \<Rightarrow> bool option" where
  "isBossQuery_of ep = (case ep of None \<Rightarrow> None | Some spec \<Rightarrow> isBossQuery spec)"

definition orderNumber_of :: "position_spec option \<Rightarrow> int option" where
  "orderNumber_of ep = (case ep of None \<Rightarrow> None | Some spec \<Rightarrow> orderNumber spec)"

definition finalQuery :: "string \<Rightarrow> bool" where
  "finalQuery query \<longleftrightarrow>
     position_is (detectEncounterPosition query) Final \<or> isFinalBossQuery query"

subsection \<open>Resolving the target order before the search (lines 191 to 252)\<close>

text \<open>The loop over the store that finds the maximum order of a dungeon.\<close>

definition storeMaxOrder :: "mechanic_store \<Rightarrow> string option \<Rightarrow> bool option \<Rightarrow> int" where
  "storeMaxOrder store name isBoss =
     foldl (\<lambda>maxEncounterOrder (key, stored).
        case e_order (s_encounter stored) of
          None \<Rightarrow> maxEncounterOrder
        | Some ord \<Rightarrow>
            if Some (d_name (s_dungeonRaid stored)) = name \<and> ord \<noteq> 0 then
              (if isBoss = Some True \<and> e_type (s_encounter stored) \<noteq> ''boss''
               then maxEncounterOrder
               else max maxEncounterOrder ord)
            else maxEncounterOrder) 0 store"

text \<open>
  The loop that collects \<^verbatim>\<open>bossEncounters\<close>: one entry for every store entry (that is,
  for every mechanic) of the dungeon whose encounter has type boss and a truthy order.
\<close>

definition bossEncounters :: "mechanic_store \<Rightarrow> string option \<Rightarrow> int list" where
  "bossEncounters store name =
     List.map_filter (\<lambda>(key, stored).
        case e_order (s_encounter stored) of
          None \<Rightarrow> None
        | Some ord \<Rightarrow>
            if truthy_string name \<and> Some (d_name (s_dungeonRaid stored)) = name \<and>
               e_type (s_encounter stored) = ''boss'' \<and> ord \<noteq> 0
            then Some ord else None) store"

definition initialTarget :: "mechanic_store \<Rightarrow> string \<Rightarrow> search_options \<Rightarrow> int \<times> int option" where
  "initialTarget store query options =
     (let encounterPosition = detectEncounterPosition query;
          isBoss = isBossQuery_of encounterPosition;
          name = filterDungeonRaidName options;
          bosses = bossEncounters store name
      in
      if truthy_string name \<and> finalQuery query then
        (let maxEncounterOrder = storeMaxOrder store name isBoss
         in (maxEncounterOrder, Some maxEncounterOrder))
      else if position_is encounterPosition First \<and> isBoss = Some True then
        (0, case bosses of [] \<Rightarrow> None | b # bs \<Rightarrow> Some (fold min bs b))
      else if position_is encounterPosition Second \<and> isBoss = Some True then
        (0, if length bosses \<ge> 2 then Some (sort bosses ! 1) else None)
      else if position_is encounterPosition Third \<and> isBoss = Some True then
        (0, if length bosses \<ge> 3 then Some (sort bosses ! 2) else None)
      else if truthy_number (orderNumber_of encounterPosition) then
        (0, orderNumber_of encounterPosition)
      else (0, None))"

subsection \<open>The fallback and the late resolution (lines 274 to 342)\<close>

definition directResults :: "mechanic_store \<Rightarrow> string option \<Rightarrow> candidate list" where
  "directResults store name =
     map (\<lambda>(mechanicId, stored).
        \<lparr>c_id = mechanicId,
         c_score = 0.5,
         c_metadata =
           \<lparr>mechanicId = m_id (s_mechanic stored),
            mechanicName = m_name (s_mechanic stored),
            encounterId = e_id (s_encounter stored),
            encounterName = e_name (s_encounter stored),
            encounterOrder = e_order (s_encounter stored),
            dungeonRaidId = d_id (s_dungeonRaid stored),
            dungeonRaidName = d_name (s_dungeonRaid stored),
            dungeonRaidType = d_type (s_dungeonRaid stored),
            mechanicType = m_type (s_mechanic stored),
            encounterType = e_type (s_encounter stored),
            difficulty = m_difficulty (s_mechanic stored),
            contestModeSpecific = m_contestModeSpecific (s_mechanic stored)\<rparr>\<rparr>)
       (filter (\<lambda>(mechanicId, stored). Some (d_name (s_dungeonRaid stored)) = name) store)"

text \<open>\<^verbatim>\<open>stored?.encounter.order ?? result.metadata.encounterOrder\<close>, and the same for the type.\<close>

definition resolvedOrder :: "stored option \<Rightarrow> vector_metadata \<Rightarrow> int option" where
  "resolvedOrder st metadata =
     (case st of
        None \<Rightarrow> encounterOrder metadata
      | Some s \<Rightarrow> (case e_order (s_encounter s) of
                     None \<Rightarrow> encounterOrder metadata
                   | Some ord \<Rightarrow> Some ord))"

definition resolvedType :: "stored option \<Rightarrow> vector_metadata \<Rightarrow> string" where
  "resolvedType st metadata =
     (case st of None \<Rightarrow> encounterType metadata | Some s \<Rightarrow> e_type (s_encounter s))"

text \<open>The loop of lines 311 to 320, over the fallback results.\<close>

definition fallbackMaxOrder :: "bool \<Rightarrow> bool option \<Rightarrow> int \<Rightarrow> candidate list \<Rightarrow> int" where
  "fallbackMaxOrder isFinal isBoss start results =
     foldl (\<lambda>maxEncounterOrder result.
        if (isFinal \<or> isBoss = Some True) \<and> encounterType (c_metadata result) \<noteq> ''boss''
        then maxEncounterOrder
        else (case encounterOrder (c_metadata result) of
                None \<Rightarrow> maxEncounterOrder
              | Some ord \<Rightarrow> if ord \<noteq> 0 \<and> ord > maxEncounterOrder then ord
                            else maxEncounterOrder)) start results"

text \<open>The loop of lines 327 to 340, over the search results.\<close>

definition resultsMaxOrder ::
  "mechanic_store \<Rightarrow> bool \<Rightarrow> bool option \<Rightarrow> int \<Rightarrow> candidate list \<Rightarrow> int" where
  "resultsMaxOrder store isFinal isBoss start results =
     foldl (\<lambda>maxEncounterOrder result.
        let st = store_get store (mechanicId (c_metadata result)) in
        if (isFinal \<or> isBoss = Some True) \<and> resolvedType st (c_metadata result) \<noteq> ''boss''
        then maxEncounterOrder
        else (case resolvedOrder st (c_metadata result) of
                None \<Rightarrow> maxEncounterOrder
              | Some ord \<Rightarrow> if ord \<noteq> 0 \<and> ord > maxEncounterOrder then ord
                            else maxEncounterOrder)) start results"

record resolution =
  searchResults :: "candidate list"
  maxEncounterOrder :: int
  targetEncounterOrder :: "int option"

text \<open>
  The state of the three variables at line 343, from the store, the query, the options and
  what \<^verbatim>\<open>searchSimilar\<close> returned.
\<close>

definition resolve ::
  "mechanic_store \<Rightarrow> string \<Rightarrow> search_options \<Rightarrow> candidate list \<Rightarrow> resolution" where
  "resolve store query options found =
     (let isBoss = isBossQuery_of (detectEncounterPosition query);
          name = filterDungeonRaidName options;
          (max0, target0) = initialTarget store query options;
          (results1, max1, target1) =
             (if found = [] \<and> truthy_string name then
                (let direct = directResults store name in
                 if finalQuery query \<and> target0 = None then
                   (let m = fallbackMaxOrder (isFinalBossQuery query) isBoss max0 direct
                    in (direct, m, Some m))
                 else (direct, max0, target0))
              else (found, max0, target0));
          (max2, target2) =
             (if target1 = None \<and> finalQuery query then
                (let m = resultsMaxOrder store (isFinalBossQuery query) isBoss max1 results1
                 in (m, Some m))
              else (max1, target1))
      in \<lparr>searchResults = results1, maxEncounterOrder = max2, targetEncounterOrder = target2\<rparr>)"

subsection \<open>Building, boosting and bucketing one result (lines 349 to 444)\<close>

text \<open>
  \<^verbatim>\<open>Math.min(1.0, score + amount)\<close>, with the addition of doubles. The amounts are the
  literals \<^verbatim>\<open>0.8\<close> and \<^verbatim>\<open>0.3\<close>, that is \<open>double_round 0.8\<close> and \<open>double_round 0.3\<close>.
\<close>

definition boost :: "real \<Rightarrow> real \<Rightarrow> real" where
  "boost score amount = min 1.0 (double_add score amount)"

definition result_from_store :: "candidate \<Rightarrow> stored \<Rightarrow> search_result" where
  "result_from_store result st =
     \<lparr>r_id = c_id result,
      r_score = c_score result,
      r_mechanic = s_mechanic st,
      r_encounter = s_encounter st,
      r_dungeonRaid =
        \<lparr>dr_id = d_id (s_dungeonRaid st), dr_name = d_name (s_dungeonRaid st),
         dr_type = d_type (s_dungeonRaid st)\<rparr>\<rparr>"

definition result_from_metadata :: "candidate \<Rightarrow> search_result" where
  "result_from_metadata result =
     (let metadata = c_metadata result in
      \<lparr>r_id = c_id result,
       r_score = c_score result,
       r_mechanic =
         \<lparr>m_id = mechanicId metadata,
          m_name = mechanicName metadata,
          m_description = ''[Description not available - server needs to reload mechanic data]'',
          m_type = mechanicType metadata,
          m_solution = None, m_tips = None, m_relatedMechanics = None,
          m_difficulty = difficulty metadata,
          m_contestModeSpecific = contestModeSpecific metadata,
          m_contestModeNotes = None\<rparr>,
       r_encounter =
         \<lparr>e_id = encounterId metadata,
          e_name = encounterName metadata,
          e_description = [],
          e_type = encounterType metadata,
          e_mechanics = [],
          e_order = encounterOrder metadata\<rparr>,
       r_dungeonRaid =
         \<lparr>dr_id = dungeonRaidId metadata, dr_name = dungeonRaidName metadata,
          dr_type = dungeonRaidType metadata\<rparr>\<rparr>)"

text \<open>
  The position step of the two branches: \<open>None\<close> is \<^verbatim>\<open>continue\<close> (the candidate is
  dropped), \<open>Some s\<close> is the score after the step. The store branch has the extra
  boost of line 376.
\<close>

definition position_step_store ::
  "bool \<Rightarrow> int \<Rightarrow> int option \<Rightarrow> int option \<Rightarrow> real \<Rightarrow> real option" where
  "position_step_store isFinal maxOrder target ord score =
     (case target of
        Some t \<Rightarrow>
          if ord = Some t then Some (boost score (double_round 0.8))
          else if ord \<noteq> None \<and> ord \<noteq> Some t then None
          else Some score
      | None \<Rightarrow>
          if isFinal \<and> ord \<noteq> None \<and> ord = Some maxOrder \<and> maxOrder > 0
          then Some (boost score (double_round 0.8))
          else Some score)"

definition position_step_metadata :: "int option \<Rightarrow> int option \<Rightarrow> real \<Rightarrow> real option" where
  "position_step_metadata target ord score =
     (if target \<noteq> None \<and> ord \<noteq> None \<and> ord \<noteq> target then None
      else if target \<noteq> None \<and> ord \<noteq> None \<and> ord = target then Some (boost score (double_round 0.8))
      else Some score)"

text \<open>
  One pass of the loop body: \<open>None\<close> when the candidate is skipped, otherwise the result
  and the bucket it is pushed to (\<open>True\<close> for \<^verbatim>\<open>flowMechanics\<close>).
\<close>

definition processResult ::
  "mechanic_store \<Rightarrow> bool \<Rightarrow> int \<Rightarrow> int option \<Rightarrow> candidate \<Rightarrow> (bool \<times> search_result) option" where
  "processResult store isFinal maxOrder target result =
     (case store_get store (mechanicId (c_metadata result)) of
        Some st \<Rightarrow>
          (case position_step_store isFinal maxOrder target
                  (resolvedOrder (Some st) (c_metadata result)) (c_score result) of
             None \<Rightarrow> None
           | Some score \<Rightarrow>
               if isEncounterFlowMechanic (s_mechanic st)
               then Some (True, (result_from_store result st)\<lparr>r_score := boost score (double_round 0.3)\<rparr>)
               else Some (False, (result_from_store result st)\<lparr>r_score := score\<rparr>))
      | None \<Rightarrow>
          (case position_step_metadata target (encounterOrder (c_metadata result))
                  (c_score result) of
             None \<Rightarrow> None
           | Some score \<Rightarrow>
               if name_is_flow (mechanicName (c_metadata result))
               then Some (True, (result_from_metadata result)\<lparr>r_score := boost score (double_round 0.3)\<rparr>)
               else Some (False, (result_from_metadata result)\<lparr>r_score := score\<rparr>)))"

subsection \<open>Sorting, concatenating and truncating (lines 446 to 457)\<close>

text \<open>
  \<^verbatim>\<open>Array.prototype.sort\<close> is stable, and the comparator \<^verbatim>\<open>b.score - a.score\<close> orders by
  descending score (the difference of two doubles, rounded, has the sign of the exact
  difference): an insertion sort on the negated score. \<^verbatim>\<open>slice(0, limit)\<close> counts a
  negative limit from the end of the array.
\<close>

definition sortByScore :: "search_result list \<Rightarrow> search_result list" where
  "sortByScore results = sort_key (\<lambda>r. - r_score r) results"

definition slice0 :: "'a list \<Rightarrow> int \<Rightarrow> 'a list" where
  "slice0 xs limit =
     (if limit < 0 then take (nat (int (length xs) + limit)) xs else take (nat limit) xs)"

definition flowMechanics :: "(bool \<times> search_result) list \<Rightarrow> search_result list" where
  "flowMechanics processed = map snd (filter (\<lambda>(flow, r). flow) processed)"

definition otherMechanics :: "(bool \<times> search_result) list \<Rightarrow> search_result list" where
  "otherMechanics processed = map snd (filter (\<lambda>(flow, r). \<not> flow) processed)"

definition finalResults ::
  "mechanic_store \<Rightarrow> string \<Rightarrow> resolution \<Rightarrow> search_result list" where
  "finalResults store query res =
     (let processed =
            List.map_filter
              (processResult store (isFinalBossQuery query) (maxEncounterOrder res)
                 (targetEncounterOrder res))
              (searchResults res)
      in sortByScore (flowMechanics processed) @ sortByScore (otherMechanics processed))"

definition adjustedTopK :: "search_options \<Rightarrow> int" where
  "adjustedTopK options =
     (let baseTopK = topK_or_10 (o_topK options) in
      if truthy_string (filterDungeonRaidName options) then baseTopK * 4 else baseTopK * 2)"

text \<open>
  The whole operation. Whatever is thrown inside the \<^verbatim>\<open>try\<close> block is caught and replaced
  by one new error; the second component is the list of provider calls made.
\<close>

definition retrieveRelevantMechanics ::
  "providers \<Rightarrow> mechanic_store \<Rightarrow> string \<Rightarrow> search_options \<Rightarrow>
     (js_throw + search_result list) \<times> provider_call list" where
  "retrieveRelevantMechanics env store query options =
     (case generateEmbedding env query of
        (Inl e, calls1) \<Rightarrow> (Inl (Error ''Failed to retrieve relevant mechanics''), calls1)
      | (Inr queryEmbedding, calls1) \<Rightarrow>
          (let searchOptions = options\<lparr>o_topK := Some (adjustedTopK options)\<rparr> in
           case searchSimilar env queryEmbedding searchOptions of
             (Inl e, calls2) \<Rightarrow>
               (Inl (Error ''Failed to retrieve relevant mechanics''), calls1 @ calls2)
           | (Inr found, calls2) \<Rightarrow>
               (Inr (slice0 (finalResults store query (resolve store query options found))
                       (topK_or_10 (o_topK options))),
                calls1 @ calls2)))"

text \<open>
  The resolution a call works with: defined when both provider calls succeed, and then the
  state of the three variables at line 343 for what the search returned.
\<close>

definition resolutionOf ::
  "providers \<Rightarrow> mechanic_store \<Rightarrow> string \<Rightarrow> search_options \<Rightarrow> resolution option" where
  "resolutionOf env store query options =
     (case fst (generateEmbedding env query) of
        Inl e \<Rightarrow> None
      | Inr queryEmbedding \<Rightarrow>
          (case fst (searchSimilar env queryEmbedding
                        (options\<lparr>o_topK := Some (adjustedTopK options)\<rparr>)) of
             Inl e \<Rightarrow> None
           | Inr found \<Rightarrow> Some (resolve store query options found)))"

section \<open>Example data\<close>

text \<open>
  A small Duality store (registered in the order m1, m2, m3, m4), a vector index that
  answers every request with the same five matches, one of them (\<open>x9\<close>) unknown to the
  store and without an encounter order, and an embedding service that always succeeds.
  The score of a match is given as a decimal and is the double of that decimal.
\<close>

definition example_mechanic :: "string \<Rightarrow> string \<Rightarrow> mechanic" where
  "example_mechanic i n =
     \<lparr>m_id = i, m_name = n, m_description = ''text'', m_type = ''other'',
      m_solution = None, m_tips = None, m_relatedMechanics = None, m_difficulty = None,
      m_contestModeSpecific = None, m_contestModeNotes = None\<rparr>"

definition example_encounter :: "string \<Rightarrow> string \<Rightarrow> int option \<Rightarrow> encounter" where
  "example_encounter i t ord =
     \<lparr>e_id = i, e_name = i, e_description = ''text'', e_type = t, e_mechanics = [],
      e_order = ord\<rparr>"

definition duality :: dungeon_raid where
  "duality = \<lparr>d_id = ''d1'', d_name = ''Duality'', d_type = dungeon, d_description = ''text'',
     d_encounters = [], d_releaseDate = None, d_contestModeDate = None\<rparr>"

definition example_store :: mechanic_store where
  "example_store =
     registerMechanic (example_mechanic ''m4'' ''Standard Bearers'')
       (example_encounter ''caiatl'' ''boss'' (Some 3)) duality
    (registerMechanic (example_mechanic ''m3'' ''Caiatl Strategy'')
       (example_encounter ''caiatl'' ''boss'' (Some 3)) duality
    (registerMechanic (example_mechanic ''m2'' ''Vault Encounter Flow'')
       (example_encounter ''vault'' ''encounter'' (Some 2)) duality
    (registerMechanic (example_mechanic ''m1'' ''Bell Puzzle'')
       (example_encounter ''gahlran'' ''boss'' (Some 1)) duality [])))"

definition example_match :: "string \<Rightarrow> string \<Rightarrow> int option \<Rightarrow> real \<Rightarrow> pinecone_match" where
  "example_match i n ord s =
     \<lparr>pm_id = i, pm_score = Some (double_round s),
      pm_metadata =
        \<lparr>mechanicId = i, mechanicName = n, encounterId = ''e'', encounterName = ''e'',
         encounterOrder = ord, dungeonRaidId = ''d1'', dungeonRaidName = ''Duality'',
         dungeonRaidType = dungeon, mechanicType = ''other'', encounterType = ''boss'',
         difficulty = None, contestModeSpecific = None\<rparr>\<rparr>"

definition example_matches :: "pinecone_match list" where
  "example_matches =
     [example_match ''m1'' ''Bell Puzzle'' (Some 1) 0.9,
      example_match ''m4'' ''Standard Bearers'' (Some 3) 0.15,
      example_match ''x9'' ''Unlisted add clear'' None 0.3,
      example_match ''m3'' ''Caiatl Strategy'' (Some 3) 0.1,
      example_match ''m2'' ''Vault Encounter Flow'' (Some 2) 0.8]"

definition example_env :: providers where
  "example_env = \<lparr>embeddings_create = (\<lambda>text. Inr [0.25, 0.5]),
                   index_query = (\<lambda>request. Inr (Some example_matches))\<rparr>"

definition example_options :: "string \<Rightarrow> int option \<Rightarrow> search_options" where
  "example_options name k =
     \<lparr>o_filter = Some \<lparr>f_dungeonRaidName = Some name, f_encounterType = None,
         f_mechanicType = None, f_difficulty = None, f_contestModeSpecific = None,
         f_encounterOrder = None\<rparr>, o_topK = k\<rparr>"

definition example_options_unfiltered :: "int option \<Rightarrow> search_options" where
  "example_options_unfiltered k = \<lparr>o_filter = None, o_topK = k\<rparr>"

definition example_run ::
  "string \<Rightarrow> int option \<Rightarrow> (js_throw + search_result list) \<times> provider_call list" where
  "example_run query k =
     retrieveRelevantMechanics example_env example_store query (example_options ''Duality'' k)"

definition example_env_embed_fails :: providers where
  "example_env_embed_fails =
     example_env\<lparr>embeddings_create := (\<lambda>text. Inl (Error ''quota exceeded''))\<rparr>"

definition example_env_search_fails :: providers where
  "example_env_search_fails =
     example_env\<lparr>index_query := (\<lambda>request. Inl (Error ''index unavailable''))\<rparr>"

definition example_env_cosine :: providers where
  "example_env_cosine =
     example_env\<lparr>index_query :=
       (\<lambda>request. Inr (Some [example_match ''m1'' ''Bell Puzzle'' (Some 1) (- 0.25)]))\<rparr>"

definition zero_order_store :: mechanic_store where
  "zero_order_store =
     registerMechanic (example_mechanic ''z1'' ''Entrance Puzzle'')
       (example_encounter ''entrance'' ''boss'' (Some 0)) duality []"

definition example_env_zero :: providers where
  "example_env_zero =
     example_env\<lparr>index_query :=
       (\<lambda>request. Inr (Some [example_match ''z1'' ''Entrance Puzzle'' (Some 0) 0.5,
                                 example_match ''x9'' ''Unlisted add clear'' None 0.3,
                                 example_match ''m1'' ''Bell Puzzle'' (Some 1) 0.9]))\<rparr>"


definition single_boss_store :: mechanic_store where
  "single_boss_store =
     registerMechanic (example_mechanic ''m4'' ''Standard Bearers'')
       (example_encounter ''caiatl'' ''boss'' (Some 3)) duality
    (registerMechanic (example_mechanic ''m3'' ''Caiatl Strategy'')
       (example_encounter ''caiatl'' ''boss'' (Some 3)) duality
    (registerMechanic (example_mechanic ''m2'' ''Vault Encounter Flow'')
       (example_encounter ''vault'' ''encounter'' (Some 2)) duality []))"

section \<open>Auxiliary facts\<close>

lemma pow2_pos: "0 < pow2 n"
  by (simp add: pow2_def)

lemma round_half_even_nonneg: "0 \<le> x \<Longrightarrow> 0 \<le> round_half_even x"
  by (auto simp: round_half_even_def Let_def)

lemma double_round_nonneg: "0 \<le> x \<Longrightarrow> 0 \<le> double_round x"
  by (auto simp: double_round_def Let_def pow2_pos less_imp_le
      intro!: mult_nonneg_nonneg round_half_even_nonneg divide_nonneg_pos)

lemma bitlen_ge_1: "0 < n \<Longrightarrow> 1 \<le> bitlen n"
  by (simp add: bitlen_alt_def)

lemma binade_bounds:
  assumes "0 < x"
  shows "pow2 (binade x) \<le> x \<and> x < pow2 (binade x + 1)"
proof (cases "1 \<le> x")
  case True
  let ?n = "\<lfloor>x\<rfloor>"
  have n: "0 < ?n" using True by simp
  from bitlen_bounds [OF n] have lo: "(2::int) ^ nat (bitlen ?n - 1) \<le> ?n"
    and hi: "?n < 2 ^ nat (bitlen ?n)" by auto
  have b: "1 \<le> bitlen ?n" using n by (rule bitlen_ge_1)
  have "real_of_int (2 ^ nat (bitlen ?n - 1)) \<le> real_of_int ?n"
    using lo by linarith
  then have 1: "2 ^ nat (bitlen ?n - 1) \<le> x"
    by (simp add: le_floor_iff)
  have "?n + 1 \<le> 2 ^ nat (bitlen ?n)" using hi by simp
  then have "real_of_int (?n + 1) \<le> real_of_int (2 ^ nat (bitlen ?n))"
    by linarith
  then have A: "real_of_int ?n + 1 \<le> 2 ^ nat (bitlen ?n)" by simp
  have B: "x < real_of_int ?n + 1" by linarith
  from A B have 2: "x < 2 ^ nat (bitlen ?n)" by linarith
  show ?thesis using True 1 2 b by (simp add: binade_def pow2_def)
next
  case False
  let ?y = "1 / x"
  let ?m = "\<lceil>?y\<rceil> - 1"
  have y: "1 < ?y" using False assms by simp
  then have c: "2 \<le> \<lceil>?y\<rceil>" by linarith
  then have m: "0 < ?m" by simp
  from bitlen_bounds [OF m] have lo: "(2::int) ^ nat (bitlen ?m - 1) \<le> ?m"
    and hi: "?m < 2 ^ nat (bitlen ?m)" by auto
  have b: "1 \<le> bitlen ?m" using m by (rule bitlen_ge_1)
  have "\<lceil>?y\<rceil> \<le> 2 ^ nat (bitlen ?m)" using hi by simp
  then have "real_of_int \<lceil>?y\<rceil> \<le> real_of_int (2 ^ nat (bitlen ?m))" by linarith
  then have "?y \<le> 2 ^ nat (bitlen ?m)" by (simp add: ceiling_le_iff)
  then have 1: "1 / 2 ^ nat (bitlen ?m) \<le> x"
    using assms by (simp add: field_simps)
  have "real_of_int (2 ^ nat (bitlen ?m - 1)) \<le> real_of_int ?m" using lo by linarith
  then have C: "2 ^ nat (bitlen ?m - 1) \<le> real_of_int ?m" by simp
  have D: "real_of_int ?m < ?y" by linarith
  from C D have "2 ^ nat (bitlen ?m - 1) < ?y" by linarith
  then have 2: "x < 1 / 2 ^ nat (bitlen ?m - 1)"
    using assms by (simp add: field_simps)
  have e: "nat (- (1 - bitlen ?m)) = nat (bitlen ?m - 1)" by simp
  show ?thesis
  proof (cases "bitlen ?m = 1")
    case True
    then show ?thesis using False 1 2 by (simp add: binade_def pow2_def)
  next
    case ne: False
    with b have "1 < bitlen ?m" by simp
    then show ?thesis using False 1 2 e by (simp add: binade_def pow2_def)
  qed
qed

lemma double_examples:
  "double_round 0.5 = 1 / 2"
  "double_round (- 0.25) = - 1 / 4"
  "double_round 0.8 = 3602879701896397 / 4503599627370496"
  "double_round 0.3 = 5404319552844595 / 18014398509481984"
  "double_add (double_round 0.15) (double_round 0.8) = double_round 0.9500000000000001"
  "double_add (double_round 0.1) (double_round 0.3) = double_round 0.4"
  "double_add (1 / 2) (double_round 0.8) = double_round 1.3"
  by code_simp+

lemma toLowerChar_idem: "toLowerChar (toLowerChar c) = toLowerChar c"
  unfolding toLowerChar_def
  by (auto split: option.splits if_splits)

lemma toLowerCase_idem: "toLowerCase (toLowerCase s) = toLowerCase s"
  by (simp add: toLowerCase_def toLowerChar_idem)

lemma startsWith_prefix: "startsWith s p \<longleftrightarrow> prefix p s"
  by (induction s p rule: startsWith.induct) auto

lemma includes_str_sublist: "includes_str s sub \<longleftrightarrow> sublist sub s"
  by (induction s) (auto simp: startsWith_prefix sublist_Cons_right)

lemma detect_is_interpret: "detectEncounterPosition q = interpret_position q"
  by (simp add: detectEncounterPosition_def interpret_position_def position_table_def Let_def)

lemma first_match_None:
  "first_match rows s = None \<longleftrightarrow>
     (\<forall>(phrases, r)\<in>set rows. \<forall>p\<in>set phrases. \<not> includes_str s p)"
  by (induction rows s rule: first_match.induct) (auto simp: list_ex_iff)

lemma set_map_filter_iff:
  "y \<in> set (List.map_filter f xs) \<longleftrightarrow> (\<exists>x\<in>set xs. f x = Some y)"
  by (force simp: List.map_filter_def)

lemma processResult_flow:
  "processResult store isFinal maxOrder target c = Some (b, r) \<Longrightarrow>
     isEncounterFlowMechanic (r_mechanic r) = b"
  by (auto simp: processResult_def isEncounterFlowMechanic_def result_from_store_def
      result_from_metadata_def Let_def split: option.splits if_splits)

lemma slice0_take: "\<exists>k. slice0 xs l = take k xs"
  by (auto simp: slice0_def)

lemma sortByScore_sorted: "sorted_wrt (\<lambda>a b. r_score b \<le> r_score a) (sortByScore xs)"
proof -
  have "sorted (map (\<lambda>r. - r_score r) (sortByScore xs))"
    unfolding sortByScore_def by (rule sorted_sort_key)
  then show ?thesis by (simp add: sorted_map)
qed

lemma set_sortByScore: "set (sortByScore xs) = set xs"
  by (simp add: sortByScore_def)

lemma boost_le: "boost s a \<le> 1"
  by (simp add: boost_def)

lemma retrieve_Inr:
  assumes "retrieveRelevantMechanics env store query options = (Inr results, calls)"
  shows "\<exists>found. results = slice0 (finalResults store query (resolve store query options found))
            (topK_or_10 (o_topK options))"
  using assms
  by (auto simp: retrieveRelevantMechanics_def Let_def split: prod.splits sum.splits)

lemma flowMechanics_flow:
  "r \<in> set (flowMechanics (List.map_filter (processResult store isFinal maxOrder target) cs))
     \<Longrightarrow> isEncounterFlowMechanic (r_mechanic r)"
  by (auto simp: flowMechanics_def set_map_filter_iff dest: processResult_flow)

lemma otherMechanics_not_flow:
  "r \<in> set (otherMechanics (List.map_filter (processResult store isFinal maxOrder target) cs))
     \<Longrightarrow> \<not> isEncounterFlowMechanic (r_mechanic r)"
  by (auto simp: otherMechanics_def set_map_filter_iff dest: processResult_flow)

lemma finalResults_buckets:
  "\<exists>flow other. finalResults store query res = flow @ other \<and>
     (\<forall>r\<in>set flow. isEncounterFlowMechanic (r_mechanic r)) \<and>
     (\<forall>r\<in>set other. \<not> isEncounterFlowMechanic (r_mechanic r)) \<and>
     sorted_wrt (\<lambda>a b. r_score b \<le> r_score a) flow \<and>
     sorted_wrt (\<lambda>a b. r_score b \<le> r_score a) other"
  unfolding finalResults_def Let_def
  by (intro exI conjI, rule refl)
     (auto simp: set_sortByScore sortByScore_sorted
        dest: flowMechanics_flow otherMechanics_not_flow)

lemma take_buckets:
  assumes "xs = flow @ other"
    and "\<forall>r\<in>set flow. P r" and "\<forall>r\<in>set other. \<not> P r"
    and "sorted_wrt R flow" and "sorted_wrt R other"
  shows "\<exists>flow' other'. take k xs = flow' @ other' \<and>
     (\<forall>r\<in>set flow'. P r) \<and> (\<forall>r\<in>set other'. \<not> P r) \<and>
     sorted_wrt R flow' \<and> sorted_wrt R other'"
proof (intro exI conjI)
  show "take k xs = take k flow @ take (k - length flow) other"
    using assms(1) by simp
  show "\<forall>r\<in>set (take k flow). P r" using assms(2) by (meson in_set_takeD)
  show "\<forall>r\<in>set (take (k - length flow) other). \<not> P r" using assms(3) by (meson in_set_takeD)
  show "sorted_wrt R (take k flow)" using assms(4) by (rule sorted_wrt_take)
  show "sorted_wrt R (take (k - length flow) other)" using assms(5) by (rule sorted_wrt_take)
qed

lemma retrieve_buckets:
  assumes "retrieveRelevantMechanics env store query options = (Inr results, calls)"
  shows "\<exists>flow other. results = flow @ other \<and>
     (\<forall>r\<in>set flow. isEncounterFlowMechanic (r_mechanic r)) \<and>
     (\<forall>r\<in>set other. \<not> isEncounterFlowMechanic (r_mechanic r)) \<and>
     sorted_wrt (\<lambda>a b. r_score b \<le> r_score a) flow \<and>
     sorted_wrt (\<lambda>a b. r_score b \<le> r_score a) other"
proof -
  from retrieve_Inr [OF assms] obtain found where
    r: "results = slice0 (finalResults store query (resolve store query options found))
            (topK_or_10 (o_topK options))" by blast
  obtain k where
    k: "results = take k (finalResults store query (resolve store query options found))"
    using r slice0_take by metis
  obtain flow other where
    fo: "finalResults store query (resolve store query options found) = flow @ other"
     "\<forall>r\<in>set flow. isEncounterFlowMechanic (r_mechanic r)"
     "\<forall>r\<in>set other. \<not> isEncounterFlowMechanic (r_mechanic r)"
     "sorted_wrt (\<lambda>a b. r_score b \<le> r_score a) flow"
     "sorted_wrt (\<lambda>a b. r_score b \<le> r_score a) other"
    using finalResults_buckets by blast
  show ?thesis unfolding k by (rule take_buckets [OF fo])
qed

lemma run_collapse:
  "\<not> isl (fst run) \<Longrightarrow> run = (Inr (projr (fst run)), snd run)"
  by (cases run) (auto simp: isl_def)

lemma retrieve_cases:
  "retrieveRelevantMechanics env store query options =
     (case embeddings_create env query of
        Inl e \<Rightarrow> (Inl (Error ''Failed to retrieve relevant mechanics''), [EmbeddingsCreate query])
      | Inr v \<Rightarrow>
          (let request = build_request v (options\<lparr>o_topK := Some (adjustedTopK options)\<rparr>) in
           case index_query env request of
             Inl e \<Rightarrow> (Inl (Error ''Failed to retrieve relevant mechanics''),
                       [EmbeddingsCreate query, IndexQuery request])
           | Inr ms \<Rightarrow>
               (Inr (slice0 (finalResults store query (resolve store query options
                        (case ms of None \<Rightarrow> [] | Some matches \<Rightarrow> map match_to_candidate matches)))
                      (topK_or_10 (o_topK options))),
                [EmbeddingsCreate query, IndexQuery request])))"
  by (auto simp: retrieveRelevantMechanics_def generateEmbedding_def searchSimilar_def Let_def
      split: sum.splits option.splits js_throw.splits)

lemma length_slice0: "0 \<le> l \<Longrightarrow> int (length (slice0 xs l)) \<le> l"
  by (simp add: slice0_def)

lemma adjustedTopK_zero:
  "adjustedTopK (options\<lparr>o_topK := Some 0\<rparr>) =
     (if truthy_string (filterDungeonRaidName options) then 40 else 20)"
  "adjustedTopK (options\<lparr>o_topK := None\<rparr>) =
     (if truthy_string (filterDungeonRaidName options) then 40 else 20)"
  by (simp_all add: adjustedTopK_def topK_or_10_def filterDungeonRaidName_def)

lemma resolve_topK: "resolve store query (options\<lparr>o_topK := k\<rparr>) found = resolve store query options found"
  by (simp add: resolve_def initialTarget_def filterDungeonRaidName_def)

lemma build_request_topK:
  "build_request v (options\<lparr>o_topK := k\<rparr>) = (build_request v options)\<lparr>q_topK := topK_or_10 k\<rparr>"
  by (simp add: build_request_def build_filter_def Let_def)

lemma boost_nonneg: "0 \<le> s \<Longrightarrow> 0 \<le> a \<Longrightarrow> 0 \<le> boost s a"
  by (simp add: boost_def double_add_def double_round_nonneg)

lemma boost_amount_nonneg: "0 \<le> s \<Longrightarrow> 0 \<le> a \<Longrightarrow> 0 \<le> boost s (double_round a)"
  by (simp add: boost_nonneg double_round_nonneg)

lemma position_step_store_target:
  "position_step_store isFinal maxOrder (Some t) ord s = Some p \<Longrightarrow>
     (ord = Some t \<and> p = boost s (double_round 0.8)) \<or> (ord = None \<and> p = s)"
  by (auto simp: position_step_store_def split: if_splits)

lemma position_step_metadata_target:
  "position_step_metadata (Some t) ord s = Some p \<Longrightarrow>
     (ord = Some t \<and> p = boost s (double_round 0.8)) \<or> (ord = None \<and> p = s)"
  by (auto simp: position_step_metadata_def split: if_splits)

lemma position_step_store_upper:
  "position_step_store isFinal maxOrder target ord s = Some p \<Longrightarrow> s \<le> 1 \<Longrightarrow> p \<le> 1"
  by (auto simp: position_step_store_def boost_le split: if_splits option.splits)

lemma position_step_store_lower:
  "position_step_store isFinal maxOrder target ord s = Some p \<Longrightarrow> 0 \<le> s \<Longrightarrow> 0 \<le> p"
  by (auto simp: position_step_store_def boost_amount_nonneg
      split: if_splits option.splits)

lemma position_step_metadata_upper:
  "position_step_metadata target ord s = Some p \<Longrightarrow> s \<le> 1 \<Longrightarrow> p \<le> 1"
  by (auto simp: position_step_metadata_def boost_le split: if_splits)

lemma position_step_metadata_lower:
  "position_step_metadata target ord s = Some p \<Longrightarrow> 0 \<le> s \<Longrightarrow> 0 \<le> p"
  by (auto simp: position_step_metadata_def boost_amount_nonneg split: if_splits)

lemma processResult_Some:
  assumes "processResult store isFinal maxOrder target c = Some (b, r)"
  shows "r_id r = c_id c \<and>
    (\<exists>p. (case store_get store (mechanicId (c_metadata c)) of
            Some st \<Rightarrow> position_step_store isFinal maxOrder target
                         (resolvedOrder (Some st) (c_metadata c)) (c_score c)
          | None \<Rightarrow> position_step_metadata target (encounterOrder (c_metadata c)) (c_score c))
          = Some p \<and>
         r_score r = (if b then boost p (double_round 0.3) else p)) \<and>
    r_encounter r = (case store_get store (mechanicId (c_metadata c)) of
                       Some st \<Rightarrow> s_encounter st
                     | None \<Rightarrow> r_encounter (result_from_metadata c))"
  using assms
  by (auto simp: processResult_def result_from_store_def result_from_metadata_def Let_def
      split: option.splits if_splits)

lemma set_buckets: "set (flowMechanics P) \<union> set (otherMechanics P) = snd ` set P"
proof -
  have "set P = {x \<in> set P. fst x} \<union> {x \<in> set P. \<not> fst x}" by blast
  then have "snd ` set P = snd ` {x \<in> set P. fst x} \<union> snd ` {x \<in> set P. \<not> fst x}"
    by (metis image_Un)
  then show ?thesis
    by (simp add: flowMechanics_def otherMechanics_def case_prod_unfold)
qed

lemma set_finalResults:
  "r \<in> set (finalResults store query res) \<longleftrightarrow>
     (\<exists>c\<in>set (searchResults res). \<exists>b.
        processResult store (isFinalBossQuery query) (maxEncounterOrder res)
          (targetEncounterOrder res) c = Some (b, r))"
proof -
  let ?P = "List.map_filter
              (processResult store (isFinalBossQuery query) (maxEncounterOrder res)
                 (targetEncounterOrder res)) (searchResults res)"
  have "set (finalResults store query res) = snd ` set ?P"
    unfolding finalResults_def Let_def by (simp add: set_sortByScore set_buckets)
  then have "r \<in> set (finalResults store query res) \<longleftrightarrow> (\<exists>b. (b, r) \<in> set ?P)"
    by force
  then show ?thesis by (simp add: set_map_filter_iff) blast
qed

lemma set_slice0: "set (slice0 xs l) \<subseteq> set xs"
  by (auto simp: slice0_def dest: in_set_takeD)

lemma searchResults_resolve:
  "searchResults (resolve store query options found) =
     (if found = [] \<and> truthy_string (filterDungeonRaidName options)
      then directResults store (filterDungeonRaidName options) else found)"
  by (simp add: resolve_def Let_def split: prod.splits)

lemma retrieve_resolution:
  assumes "retrieveRelevantMechanics env store query options = (Inr results, calls)"
  shows "\<exists>res. resolutionOf env store query options = Some res \<and>
           results = slice0 (finalResults store query res) (topK_or_10 (o_topK options))"
  using assms
  by (auto simp: retrieveRelevantMechanics_def resolutionOf_def Let_def
      split: prod.splits sum.splits)

lemma resolutionOf_found:
  assumes "resolutionOf env store query options = Some res"
  shows "\<exists>v ms. embeddings_create env query = Inr v \<and>
           index_query env (build_request v (options\<lparr>o_topK := Some (adjustedTopK options)\<rparr>)) = Inr ms \<and>
           res = resolve store query options
                   (case ms of None \<Rightarrow> [] | Some matches \<Rightarrow> map match_to_candidate matches)"
  using assms
  by (auto simp: resolutionOf_def generateEmbedding_def searchSimilar_def Let_def
      split: sum.splits option.splits js_throw.splits)

lemma directResults_score: "c \<in> set (directResults store name) \<Longrightarrow> c_score c = 1 / 2"
  by (auto simp: directResults_def)

lemma result_origin:
  assumes "retrieveRelevantMechanics env store query options = (Inr results, calls)"
    and "resolutionOf env store query options = Some res"
    and "r \<in> set results"
  shows "\<exists>c\<in>set (searchResults res). \<exists>b.
           processResult store (isFinalBossQuery query) (maxEncounterOrder res)
             (targetEncounterOrder res) c = Some (b, r)"
proof -
  from retrieve_resolution [OF assms(1)] obtain res' where
    a: "resolutionOf env store query options = Some res'" and
    b: "results = slice0 (finalResults store query res') (topK_or_10 (o_topK options))"
    by blast
  from a assms(2) have eq: "res' = res" by simp
  have "r \<in> set (slice0 (finalResults store query res) (topK_or_10 (o_topK options)))"
    using assms(3) unfolding b eq .
  then have "r \<in> set (finalResults store query res)"
    by (rule subsetD [OF set_slice0])
  then show ?thesis by (simp add: set_finalResults)
qed

lemma processResult_target:
  assumes p: "processResult store isFinal maxOrder (Some t) c = Some (b, r)"
  shows "(e_order (r_encounter r) = None \<or> e_order (r_encounter r) = Some t) \<and>
         r_id r = c_id c \<and>
         ((resolvedOrder (store_get store (mechanicId (c_metadata c))) (c_metadata c) = Some t \<and>
           r_score r = (if b then boost (boost (c_score c) (double_round 0.8)) (double_round 0.3) else boost (c_score c) (double_round 0.8))) \<or>
          (resolvedOrder (store_get store (mechanicId (c_metadata c))) (c_metadata c) = None \<and>
           r_score r = (if b then boost (c_score c) (double_round 0.3) else c_score c)))"
proof -
  let ?st = "store_get store (mechanicId (c_metadata c))"
  let ?ord = "resolvedOrder ?st (c_metadata c)"
  from processResult_Some [OF p] obtain q where
    rid: "r_id r = c_id c" and
    step: "(case ?st of
            Some st \<Rightarrow> position_step_store isFinal maxOrder (Some t)
                         (resolvedOrder (Some st) (c_metadata c)) (c_score c)
          | None \<Rightarrow> position_step_metadata (Some t) (encounterOrder (c_metadata c)) (c_score c))
          = Some q" and
    score: "r_score r = (if b then boost q (double_round 0.3) else q)" and
    enc: "r_encounter r = (case ?st of Some st \<Rightarrow> s_encounter st
                           | None \<Rightarrow> r_encounter (result_from_metadata c))"
    by blast
  have ord: "(?ord = Some t \<and> q = boost (c_score c) (double_round 0.8)) \<or> (?ord = None \<and> q = c_score c)"
  proof (cases ?st)
    case None
    then show ?thesis
      using step position_step_metadata_target [of t "encounterOrder (c_metadata c)" "c_score c" q]
      by (simp add: resolvedOrder_def)
  next
    case (Some st)
    then show ?thesis
      using step position_step_store_target
        [of isFinal maxOrder t "resolvedOrder (Some st) (c_metadata c)" "c_score c" q]
      by simp
  qed
  have field: "e_order (r_encounter r) = None \<or> e_order (r_encounter r) = Some t"
  proof (cases ?st)
    case None
    then show ?thesis using enc ord
      by (auto simp: resolvedOrder_def result_from_metadata_def Let_def)
  next
    case (Some st)
    then show ?thesis using enc ord
      by (auto simp: resolvedOrder_def split: option.splits)
  qed
  have "(?ord = Some t \<and>
          r_score r = (if b then boost (boost (c_score c) (double_round 0.8)) (double_round 0.3) else boost (c_score c) (double_round 0.8))) \<or>
        (?ord = None \<and> r_score r = (if b then boost (c_score c) (double_round 0.3) else c_score c))"
    using ord score by (cases b) auto
  with field rid show ?thesis by (intro conjI)
qed

lemma processResult_dropped:
  assumes "resolvedOrder (store_get store (mechanicId (c_metadata c))) (c_metadata c) = Some ord"
    and "ord \<noteq> t"
  shows "processResult store isFinal maxOrder (Some t) c = None"
  using assms
  by (cases "store_get store (mechanicId (c_metadata c))")
     (auto simp: processResult_def position_step_store_def position_step_metadata_def
        resolvedOrder_def split: option.splits)

lemma storeMaxOrder_zero:
  assumes "\<forall>(key, s)\<in>set store.
             Some (d_name (s_dungeonRaid s)) = name \<and>
             (isBoss = Some True \<longrightarrow> e_type (s_encounter s) = ''boss'') \<longrightarrow>
             e_order (s_encounter s) = None \<or> e_order (s_encounter s) = Some 0"
  shows "storeMaxOrder store name isBoss = 0"
proof -
  have "foldl (\<lambda>maxEncounterOrder (key, stored).
        case e_order (s_encounter stored) of
          None \<Rightarrow> maxEncounterOrder
        | Some ord \<Rightarrow>
            if Some (d_name (s_dungeonRaid stored)) = name \<and> ord \<noteq> 0 then
              (if isBoss = Some True \<and> e_type (s_encounter stored) \<noteq> ''boss''
               then maxEncounterOrder
               else max maxEncounterOrder ord)
            else maxEncounterOrder) a store = a" for a
    using assms
    by (induction store arbitrary: a) (auto split: option.splits if_splits)
  then show ?thesis by (simp add: storeMaxOrder_def)
qed

lemma final_target:
  assumes "truthy_string (filterDungeonRaidName options)" and "finalQuery query"
  shows "targetEncounterOrder (resolve store query options found) =
           Some (storeMaxOrder store (filterDungeonRaidName options)
                   (isBossQuery_of (detectEncounterPosition query)))"
  using assms by (simp add: resolve_def initialTarget_def Let_def split: prod.splits)

lemma maxOrder_final:
  assumes "truthy_string (filterDungeonRaidName options)" and "finalQuery query"
  shows "maxEncounterOrder (resolve store query options found) =
           storeMaxOrder store (filterDungeonRaidName options)
                   (isBossQuery_of (detectEncounterPosition query))"
  using assms by (simp add: resolve_def initialTarget_def Let_def split: prod.splits)

lemma isFinalBossQuery_finalQuery: "isFinalBossQuery query \<Longrightarrow> finalQuery query"
  by (simp add: finalQuery_def)


lemma no_position_no_target:
  assumes "detectEncounterPosition query = None"
  shows "\<not> isFinalBossQuery query \<and>
         targetEncounterOrder (resolve store query options found) = None"
proof -
  have nf: "\<not> isFinalBossQuery query"
    using assms
    by (auto simp: detectEncounterPosition_def isFinalBossQuery_def Let_def split: if_splits)
  then have "\<not> finalQuery query"
    using assms by (simp add: finalQuery_def position_is_def)
  then have "targetEncounterOrder (resolve store query options found) = None"
    using assms
    by (simp add: resolve_def initialTarget_def position_is_def isBossQuery_of_def
        orderNumber_of_def Let_def split: prod.splits)
  with nf show ?thesis by simp
qed

lemma processResult_order_field:
  assumes "processResult store isFinal maxOrder target c = Some (b, r)"
    and "e_order (r_encounter r) = Some ord"
  shows "resolvedOrder (store_get store (mechanicId (c_metadata c))) (c_metadata c) = Some ord"
proof -
  from processResult_Some [OF assms(1)] have
    enc: "r_encounter r = (case store_get store (mechanicId (c_metadata c)) of
                             Some st \<Rightarrow> s_encounter st
                           | None \<Rightarrow> r_encounter (result_from_metadata c))"
    by blast
  show ?thesis
  proof (cases "store_get store (mechanicId (c_metadata c))")
    case None
    then show ?thesis using enc assms(2)
      by (simp add: resolvedOrder_def result_from_metadata_def Let_def)
  next
    case (Some st)
    then show ?thesis using enc assms(2) by (simp add: resolvedOrder_def)
  qed
qed

lemma processResult_boosted_le:
  assumes "processResult store isFinal maxOrder (Some t) c = Some (b, r)"
    and "resolvedOrder (store_get store (mechanicId (c_metadata c))) (c_metadata c) = Some t"
  shows "r_score r \<le> 1"
proof -
  from processResult_target [OF assms(1)] assms(2)
  have "r_score r = (if b then boost (boost (c_score c) (double_round 0.8)) (double_round 0.3)
                     else boost (c_score c) (double_round 0.8))"
    by auto
  then show ?thesis by (simp add: boost_le)
qed

lemma processResult_upper:
  assumes "processResult store isFinal maxOrder target c = Some (b, r)" and "c_score c \<le> 1"
  shows "r_score r \<le> 1"
proof -
  from processResult_Some [OF assms(1)] obtain p where
    step: "(case store_get store (mechanicId (c_metadata c)) of
            Some st \<Rightarrow> position_step_store isFinal maxOrder target
                         (resolvedOrder (Some st) (c_metadata c)) (c_score c)
          | None \<Rightarrow> position_step_metadata target (encounterOrder (c_metadata c)) (c_score c))
          = Some p" and
    score: "r_score r = (if b then boost p (double_round 0.3) else p)" by blast
  have "p \<le> 1"
    using step assms(2) position_step_store_upper position_step_metadata_upper
    by (cases "store_get store (mechanicId (c_metadata c))") auto
  then show ?thesis using score by (simp add: boost_le)
qed

lemma processResult_lower:
  assumes "processResult store isFinal maxOrder target c = Some (b, r)" and "0 \<le> c_score c"
  shows "0 \<le> r_score r"
proof -
  from processResult_Some [OF assms(1)] obtain p where
    step: "(case store_get store (mechanicId (c_metadata c)) of
            Some st \<Rightarrow> position_step_store isFinal maxOrder target
                         (resolvedOrder (Some st) (c_metadata c)) (c_score c)
          | None \<Rightarrow> position_step_metadata target (encounterOrder (c_metadata c)) (c_score c))
          = Some p" and
    score: "r_score r = (if b then boost p (double_round 0.3) else p)" by blast
  have "0 \<le> p"
    using step assms(2) position_step_store_lower position_step_metadata_lower
    by (cases "store_get store (mechanicId (c_metadata c))") auto
  then show ?thesis using score by (simp add: boost_amount_nonneg)
qed

lemma candidate_scores:
  assumes "resolutionOf env store query options = Some res" and "c \<in> set (searchResults res)"
  shows "c_score c = 1 / 2 \<or>
         (\<exists>request matches m. index_query env request = Inr (Some matches) \<and> m \<in> set matches \<and>
            c_score c = (case pm_score m of None \<Rightarrow> 0 | Some x \<Rightarrow> x))"
proof -
  from resolutionOf_found [OF assms(1)] obtain v ms where
    q: "index_query env (build_request v (options\<lparr>o_topK := Some (adjustedTopK options)\<rparr>)) = Inr ms"
    and rs: "res = resolve store query options
                   (case ms of None \<Rightarrow> [] | Some matches \<Rightarrow> map match_to_candidate matches)"
    by blast
  let ?found = "case ms of None \<Rightarrow> [] | Some matches \<Rightarrow> map match_to_candidate matches"
  show ?thesis
  proof (cases "?found = [] \<and> truthy_string (filterDungeonRaidName options)")
    case True
    then have "c \<in> set (directResults store (filterDungeonRaidName options))"
      using assms(2) unfolding rs searchResults_resolve by simp
    then show ?thesis using directResults_score by blast
  next
    case False
    then have "c \<in> set ?found"
      using assms(2) unfolding rs searchResults_resolve by auto
    then obtain matches m where "ms = Some matches" "m \<in> set matches" "c = match_to_candidate m"
      by (cases ms) auto
    then show ?thesis using q by (auto simp: match_to_candidate_def)
  qed
qed








section \<open>The claims\<close>

text \<open>
  C7. The position extraction of the query interpreter scans the phrase table in its fixed
  order (final boss, final encounter, first boss, first encounter, second boss, second
  encounter, third boss, third encounter, each with its alternate spelling) on the
  lower-cased query and returns the result of the first row that matches; it does not
  depend on the case of the query; it returns nothing exactly when no phrase of the table
  occurs in the query, and then no target order is resolved and the final boss flag is
  off, so neither the position filter nor a position boost applies; an order number only
  comes with the encounter forms, where it is 1, 2 or 3 with the matching position and
  \<open>isBossQuery = false\<close>; boss-qualified and final forms carry no order number.
\<close>

theorem detectEncounterPosition_first_matching_phrase:
  "detectEncounterPosition query = first_match position_table (toLowerCase query) \<and>
   detectEncounterPosition (toLowerCase query) = detectEncounterPosition query \<and>
   (detectEncounterPosition query = None \<longleftrightarrow>
      (\<forall>(phrases, r)\<in>set position_table. \<forall>p\<in>set phrases. \<not> sublist p (toLowerCase query))) \<and>
   (\<forall>spec n. detectEncounterPosition query = Some spec \<and> orderNumber spec = Some n \<longrightarrow>
      isBossQuery spec = Some False \<and>
      (n, position spec) \<in> {(1, First), (2, Second), (3, Third)}) \<and>
   (\<forall>spec. detectEncounterPosition query = Some spec \<and>
      (isBossQuery spec = Some True \<or> position spec = Final) \<longrightarrow> orderNumber spec = None) \<and>
   (detectEncounterPosition query = None \<longrightarrow>
      \<not> isFinalBossQuery query \<and>
      (\<forall>store options found.
         targetEncounterOrder (resolve store query options found) = None))"
proof -
  have eq: "detectEncounterPosition query = first_match position_table (toLowerCase query)"
    using detect_is_interpret by (simp add: interpret_position_def)
  have ci: "detectEncounterPosition (toLowerCase query) = detectEncounterPosition query"
    by (simp add: detectEncounterPosition_def toLowerCase_idem)
  have none: "detectEncounterPosition query = None \<longleftrightarrow>
      (\<forall>(phrases, r)\<in>set position_table. \<forall>p\<in>set phrases. \<not> sublist p (toLowerCase query))"
    unfolding eq first_match_None by (simp add: includes_str_sublist)
  have ord: "\<forall>spec n. detectEncounterPosition query = Some spec \<and> orderNumber spec = Some n \<longrightarrow>
      isBossQuery spec = Some False \<and>
      (n, position spec) \<in> {(1, First), (2, Second), (3, Third)}"
    by (auto simp: detectEncounterPosition_def Let_def split: if_splits)
  have boss: "\<forall>spec. detectEncounterPosition query = Some spec \<and>
      (isBossQuery spec = Some True \<or> position spec = Final) \<longrightarrow> orderNumber spec = None"
    by (auto simp: detectEncounterPosition_def Let_def split: if_splits)
  have unfiltered: "detectEncounterPosition query = None \<longrightarrow>
      \<not> isFinalBossQuery query \<and>
      (\<forall>store options found.
         targetEncounterOrder (resolve store query options found) = None)"
    using no_position_no_target by blast
  from eq ci none ord boss unfiltered show ?thesis by blast
qed

theorem detectEncounterPosition_first_matching_phrase_witness:
  "detectEncounterPosition ''Tips for the Final Boss after the 2nd Encounter'' =
     Some \<lparr>position = Final, orderNumber = None, isBossQuery = Some True\<rparr> \<and>
   first_match position_table ''tips for the final boss after the 2nd encounter'' =
     Some \<lparr>position = Final, orderNumber = None, isBossQuery = Some True\<rparr>"
  using detectEncounterPosition_first_matching_phrase
    [of "''Tips for the Final Boss after the 2nd Encounter''"]
  by (simp add: toLowerCase_def toLowerChar_def position_table_def)

text \<open>
  C1. In every list that the retrieval returns, every result of the flow bucket (a mechanic
  whose name contains, in any case, one of flow, strategy, progression, overall encounter)
  stands before every result of the other bucket, whatever the scores, and inside each
  bucket the scores descend.
\<close>

theorem flow_bucket_precedes_other_bucket:
  assumes "retrieveRelevantMechanics env store query options = (Inr results, calls)"
  shows "(\<forall>i j. i < length results \<and> j < length results \<and>
            isEncounterFlowMechanic (r_mechanic (results ! i)) \<and>
            \<not> isEncounterFlowMechanic (r_mechanic (results ! j)) \<longrightarrow> i < j) \<and>
         (\<forall>i j. i < j \<and> j < length results \<and>
            (isEncounterFlowMechanic (r_mechanic (results ! i)) \<longleftrightarrow>
             isEncounterFlowMechanic (r_mechanic (results ! j))) \<longrightarrow>
            r_score (results ! j) \<le> r_score (results ! i))"
proof -
  from retrieve_buckets [OF assms] obtain flow other where fo:
     "results = flow @ other"
     "\<forall>r\<in>set flow. isEncounterFlowMechanic (r_mechanic r)"
     "\<forall>r\<in>set other. \<not> isEncounterFlowMechanic (r_mechanic r)"
     "sorted_wrt (\<lambda>a b. r_score b \<le> r_score a) flow"
     "sorted_wrt (\<lambda>a b. r_score b \<le> r_score a) other" by blast
  have in_flow: "i < length flow"
    if "i < length results" "isEncounterFlowMechanic (r_mechanic (results ! i))" for i
  proof (rule ccontr)
    assume "\<not> i < length flow"
    then have "results ! i = other ! (i - length flow)" "i - length flow < length other"
      using that(1) fo(1) by (auto simp: nth_append)
    then have "results ! i \<in> set other" by (metis nth_mem)
    with fo(3) that(2) show False by blast
  qed
  have in_other: "length flow \<le> j"
    if "j < length results" "\<not> isEncounterFlowMechanic (r_mechanic (results ! j))" for j
  proof (rule ccontr)
    assume "\<not> length flow \<le> j"
    then have "results ! j = flow ! j" "j < length flow"
      using fo(1) by (auto simp: nth_append)
    then have "results ! j \<in> set flow" by (metis nth_mem)
    with fo(2) that(2) show False by blast
  qed
  have first: "\<forall>i j. i < length results \<and> j < length results \<and>
            isEncounterFlowMechanic (r_mechanic (results ! i)) \<and>
            \<not> isEncounterFlowMechanic (r_mechanic (results ! j)) \<longrightarrow> i < j"
    using in_flow in_other by (meson less_le_trans)
  have second: "r_score (results ! j) \<le> r_score (results ! i)"
    if "i < j" "j < length results"
       "isEncounterFlowMechanic (r_mechanic (results ! i)) \<longleftrightarrow>
             isEncounterFlowMechanic (r_mechanic (results ! j))" for i j
  proof (cases "isEncounterFlowMechanic (r_mechanic (results ! i))")
    case True
    then have "i < length flow" "j < length flow" using in_flow that by auto
    then show ?thesis
      using fo(1,4) that(1) by (simp add: nth_append sorted_wrt_iff_nth_less)
  next
    case False
    then have "length flow \<le> i" "length flow \<le> j" using in_other that by auto
    moreover have "i - length flow < j - length flow" "j - length flow < length other"
      using that(1,2) calculation fo(1) by auto
    ultimately show ?thesis
      using fo(1,5) by (simp add: nth_append sorted_wrt_iff_nth_less)
  qed
  from first second show ?thesis by blast
qed

theorem flow_bucket_precedes_other_bucket_witness:
  "map (\<lambda>r. (r_id r, isEncounterFlowMechanic (r_mechanic r), r_score r))
       (projr (fst (example_run ''How does it work?'' (Some 3)))) =
     [(''m2'', True, 1), (''m3'', True, double_round 0.4), (''m1'', False, double_round 0.9)] \<and>
   r_score (projr (fst (example_run ''How does it work?'' (Some 3))) ! 1)
     \<le> r_score (projr (fst (example_run ''How does it work?'' (Some 3))) ! 0)"
proof -
  let ?run = "example_run ''How does it work?'' (Some 3)"
  have ok: "\<not> isl (fst ?run)" by code_simp
  have vals: "map (\<lambda>r. (r_id r, isEncounterFlowMechanic (r_mechanic r), r_score r))
       (projr (fst ?run)) = [(''m2'', True, 1), (''m3'', True, double_round 0.4), (''m1'', False, double_round 0.9)]"
    by code_simp
  have len: "length (projr (fst ?run)) = 3"
    using arg_cong [OF vals, of length] by simp
  have flows: "isEncounterFlowMechanic (r_mechanic (projr (fst ?run) ! 0))"
    "isEncounterFlowMechanic (r_mechanic (projr (fst ?run) ! 1))"
    by code_simp+
  have run: "retrieveRelevantMechanics example_env example_store ''How does it work?''
                (example_options ''Duality'' (Some 3)) = (Inr (projr (fst ?run)), snd ?run)"
    using run_collapse [OF ok] by (simp add: example_run_def)
  have "r_score (projr (fst ?run) ! 1) \<le> r_score (projr (fst ?run) ! 0)"
    using flow_bucket_precedes_other_bucket [OF run] len flows by simp
  with vals show ?thesis by simp
qed

text \<open>
  C8. When the embedding call throws, the retrieval fails with one new error and has made
  that one call only; when the embedding succeeds and the index call throws, it fails
  with the same single error after one call to each provider; otherwise it returns a
  list (there is no third outcome), again after one call to each. No provider is called
  twice.
\<close>

theorem provider_failure_is_one_wrapped_error:
  "(\<forall>e. embeddings_create env query = Inl e \<longrightarrow>
      retrieveRelevantMechanics env store query options =
        (Inl (Error ''Failed to retrieve relevant mechanics''), [EmbeddingsCreate query])) \<and>
   (\<forall>v e. embeddings_create env query = Inr v \<and>
      index_query env (build_request v (options\<lparr>o_topK := Some (adjustedTopK options)\<rparr>)) = Inl e \<longrightarrow>
      retrieveRelevantMechanics env store query options =
        (Inl (Error ''Failed to retrieve relevant mechanics''),
         [EmbeddingsCreate query,
          IndexQuery (build_request v (options\<lparr>o_topK := Some (adjustedTopK options)\<rparr>))])) \<and>
   (\<forall>v ms. embeddings_create env query = Inr v \<and>
      index_query env (build_request v (options\<lparr>o_topK := Some (adjustedTopK options)\<rparr>)) = Inr ms \<longrightarrow>
      (\<exists>results. retrieveRelevantMechanics env store query options =
        (Inr results,
         [EmbeddingsCreate query,
          IndexQuery (build_request v (options\<lparr>o_topK := Some (adjustedTopK options)\<rparr>))])))"
  by (simp add: retrieve_cases Let_def)

theorem provider_failure_is_one_wrapped_error_witness:
  "retrieveRelevantMechanics example_env_embed_fails example_store ''final boss''
       (example_options ''Duality'' (Some 5)) =
     (Inl (Error ''Failed to retrieve relevant mechanics''), [EmbeddingsCreate ''final boss'']) \<and>
   retrieveRelevantMechanics example_env_search_fails example_store ''final boss''
       (example_options ''Duality'' (Some 5)) =
     (Inl (Error ''Failed to retrieve relevant mechanics''),
      [EmbeddingsCreate ''final boss'',
       IndexQuery (build_request [0.25, 0.5] (example_options ''Duality'' (Some 20)))])"
proof -
  have e: "embeddings_create example_env_embed_fails ''final boss'' = Inl (Error ''quota exceeded'')"
    by (simp add: example_env_embed_fails_def)
  have adj: "(example_options ''Duality'' (Some 5))
               \<lparr>o_topK := Some (adjustedTopK (example_options ''Duality'' (Some 5)))\<rparr> =
             example_options ''Duality'' (Some 20)"
    by (simp add: example_options_def adjustedTopK_def topK_or_10_def filterDungeonRaidName_def)
  have s: "embeddings_create example_env_search_fails ''final boss'' = Inr [0.25, 0.5] \<and>
           index_query example_env_search_fails
             (build_request [0.25, 0.5] (example_options ''Duality'' (Some 20))) =
           Inl (Error ''index unavailable'')"
    by (simp add: example_env_search_fails_def example_env_def)
  show ?thesis
    using provider_failure_is_one_wrapped_error
            [of example_env_embed_fails "''final boss''" example_store
                "example_options ''Duality'' (Some 5)"]
          provider_failure_is_one_wrapped_error
            [of example_env_search_fails "''final boss''" example_store
                "example_options ''Duality'' (Some 5)"]
          e s
    unfolding adj by blast
qed

text \<open>
  C4 (as amended). A successful retrieval with \<^verbatim>\<open>topK\<close> \<open>N \<ge> 1\<close> returns at most \<open>N\<close>
  results; with \<^verbatim>\<open>topK\<close> absent or 0 it returns at most 10.
\<close>

theorem length_at_most_topK:
  assumes "retrieveRelevantMechanics env store query options = (Inr results, calls)"
  shows "(\<forall>N. o_topK options = Some N \<and> 1 \<le> N \<longrightarrow> int (length results) \<le> N) \<and>
         (o_topK options = None \<or> o_topK options = Some 0 \<longrightarrow> length results \<le> 10)"
proof -
  from retrieve_Inr [OF assms] obtain found where
    r: "results = slice0 (finalResults store query (resolve store query options found))
            (topK_or_10 (o_topK options))" by blast
  have a: "int (length results) \<le> N" if "o_topK options = Some N" "1 \<le> N" for N
    using that unfolding r by (intro order_trans [OF length_slice0]) (auto simp: topK_or_10_def)
  have b: "length results \<le> 10" if "o_topK options = None \<or> o_topK options = Some 0"
    using that unfolding r by (auto simp: topK_or_10_def slice0_def)
  from a b show ?thesis by blast
qed

theorem length_at_most_topK_witness:
  "map r_id (projr (fst (example_run ''How does it work?'' (Some 2)))) = [''m2'', ''m3''] \<and>
   int (length (projr (fst (example_run ''How does it work?'' (Some 2))))) \<le> 2"
proof -
  let ?run = "example_run ''How does it work?'' (Some 2)"
  have ok: "\<not> isl (fst ?run)" by code_simp
  have vals: "map r_id (projr (fst ?run)) = [''m2'', ''m3'']" by code_simp
  have run: "retrieveRelevantMechanics example_env example_store ''How does it work?''
                (example_options ''Duality'' (Some 2)) = (Inr (projr (fst ?run)), snd ?run)"
    using run_collapse [OF ok] by (simp add: example_run_def)
  have "int (length (projr (fst ?run))) \<le> 2"
    using length_at_most_topK [OF run] by (simp add: example_options_def)
  with vals show ?thesis by simp
qed

text \<open>
  The claim as stated, for every integer \<open>N\<close>, fails at \<open>N = 0\<close>: the example index
  returns five matches and all five come back.
\<close>

theorem length_at_most_topK_counterexample:
  "o_topK (example_options ''Duality'' (Some 0)) = Some 0 \<and>
   \<not> isl (fst (example_run ''How does it work?'' (Some 0))) \<and>
   map r_id (projr (fst (example_run ''How does it work?'' (Some 0)))) =
     [''m2'', ''m3'', ''m1'', ''x9'', ''m4''] \<and>
   \<not> int (length (projr (fst (example_run ''How does it work?'' (Some 0))))) \<le> 0"
proof -
  let ?run = "example_run ''How does it work?'' (Some 0)"
  have ok: "\<not> isl (fst ?run)" by code_simp
  have vals: "map r_id (projr (fst ?run)) = [''m2'', ''m3'', ''m1'', ''x9'', ''m4'']" by code_simp
  have len: "length (projr (fst ?run)) = 5"
    using arg_cong [OF vals, of length] by simp
  show ?thesis using ok vals len by (simp add: example_options_def)
qed

text \<open>
  C2. When the target encounter order of a call is resolved to \<open>t\<close>, every returned result
  comes from a candidate whose resolved encounter order (the store's, else the
  metadata's) is either \<open>t\<close>, and then its score is the candidate's score plus 0.8 (the
  sum of the two doubles) clamped to 1.0, followed by the flow boost if it is a flow
  mechanic, or undefined, and
  then its score is the candidate's score untouched by the position step. No result with
  a defined, different order is returned; the \<^verbatim>\<open>order\<close> field of the returned encounter is
  likewise \<open>t\<close> or absent.
\<close>

theorem position_filter_keeps_only_target_order:
  assumes "retrieveRelevantMechanics env store query options = (Inr results, calls)"
    and "resolutionOf env store query options = Some res"
    and "targetEncounterOrder res = Some t"
    and "r \<in> set results"
  shows "(e_order (r_encounter r) = None \<or> e_order (r_encounter r) = Some t) \<and>
         (\<exists>c\<in>set (searchResults res). r_id r = c_id c \<and>
            ((resolvedOrder (store_get store (mechanicId (c_metadata c))) (c_metadata c) = Some t \<and>
              r_score r = (if isEncounterFlowMechanic (r_mechanic r)
                           then boost (boost (c_score c) (double_round 0.8)) (double_round 0.3)
                           else boost (c_score c) (double_round 0.8))) \<or>
             (resolvedOrder (store_get store (mechanicId (c_metadata c))) (c_metadata c) = None \<and>
              r_score r = (if isEncounterFlowMechanic (r_mechanic r)
                           then boost (c_score c) (double_round 0.3)
                           else c_score c))))"
proof -
  from result_origin [OF assms(1,2,4)] obtain c b where
    c: "c \<in> set (searchResults res)" and
    p: "processResult store (isFinalBossQuery query) (maxEncounterOrder res) (Some t) c = Some (b, r)"
    using assms(3) by auto
  have flow: "isEncounterFlowMechanic (r_mechanic r) = b"
    using p by (rule processResult_flow)
  from processResult_target [OF p] c show ?thesis
    unfolding flow by (intro conjI bexI [of _ c]) simp_all
qed

theorem position_filter_keeps_only_target_order_witness:
  "map (\<lambda>r. (r_id r, r_score r, e_order (r_encounter r)))
       (projr (fst (example_run ''How do I beat the final boss?'' (Some 5)))) =
     [(''m3'', 1, Some 3), (''m4'', double_round 0.9500000000000001, Some 3),
      (''x9'', double_round 0.3, None)] \<and>
   (e_order (r_encounter (projr (fst (example_run ''How do I beat the final boss?'' (Some 5))) ! 1))
      = None \<or>
    e_order (r_encounter (projr (fst (example_run ''How do I beat the final boss?'' (Some 5))) ! 1))
      = Some 3) \<and>
   r_score (projr (fst (example_run ''How do I beat the final boss?'' (Some 5))) ! 1) =
     boost (double_round 0.15) (double_round 0.8)"
proof -
  let ?q = "''How do I beat the final boss?''"
  let ?run = "example_run ?q (Some 5)"
  let ?res = "resolve example_store ?q (example_options ''Duality'' (Some 5))
                (map match_to_candidate example_matches)"
  have ok: "\<not> isl (fst ?run)" by code_simp
  have vals: "map (\<lambda>r. (r_id r, r_score r, e_order (r_encounter r))) (projr (fst ?run)) =
     [(''m3'', 1, Some 3), (''m4'', double_round 0.9500000000000001, Some 3),
      (''x9'', double_round 0.3, None)]"
    by code_simp
  have len: "length (projr (fst ?run)) = 3"
    using arg_cong [OF vals, of length] by simp
  have run: "retrieveRelevantMechanics example_env example_store ?q
                (example_options ''Duality'' (Some 5)) = (Inr (projr (fst ?run)), snd ?run)"
    using run_collapse [OF ok] by (simp add: example_run_def)
  have res: "resolutionOf example_env example_store ?q (example_options ''Duality'' (Some 5)) =
               Some ?res"
    by (simp add: resolutionOf_def generateEmbedding_def searchSimilar_def example_env_def Let_def)
  have target: "targetEncounterOrder ?res = Some 3" by code_simp
  have mem: "projr (fst ?run) ! 1 \<in> set (projr (fst ?run))"
    using len by simp
  have score: "r_score (projr (fst ?run) ! 1) = boost (double_round 0.15) (double_round 0.8)"
    by code_simp
  from position_filter_keeps_only_target_order [OF run res target mem]
  have "e_order (r_encounter (projr (fst ?run) ! 1)) = None \<or>
        e_order (r_encounter (projr (fst ?run) ! 1)) = Some 3" by blast
  with vals score show ?thesis by (intro conjI)
qed

text \<open>
  C10 (as amended). For a final boss, last boss or final encounter query with a non-empty
  dungeon filter: if every store entry of that dungeon that meets the boss restriction
  (type boss when the query is boss-qualified, any type otherwise) has no order or order
  0, the target order is 0 and not left unresolved; every candidate whose resolved order
  is defined and not 0 is dropped; and every returned result has no encounter order or
  encounter order 0.
\<close>

theorem final_query_without_orders_targets_zero:
  assumes "filterDungeonRaidName options = Some name" and "name \<noteq> []"
    and "isFinalBossQuery query"
    and "\<forall>(key, s)\<in>set store.
           d_name (s_dungeonRaid s) = name \<and>
           (isBossQuery_of (detectEncounterPosition query) = Some True \<longrightarrow>
              e_type (s_encounter s) = ''boss'') \<longrightarrow>
           e_order (s_encounter s) = None \<or> e_order (s_encounter s) = Some 0"
    and "retrieveRelevantMechanics env store query options = (Inr results, calls)"
    and "resolutionOf env store query options = Some res"
  shows "targetEncounterOrder res = Some 0 \<and>
         (\<forall>c\<in>set (searchResults res). \<forall>ord.
            resolvedOrder (store_get store (mechanicId (c_metadata c))) (c_metadata c) = Some ord \<and>
            ord \<noteq> 0 \<longrightarrow>
            processResult store (isFinalBossQuery query) (maxEncounterOrder res)
              (targetEncounterOrder res) c = None) \<and>
         (\<forall>r\<in>set results. e_order (r_encounter r) = None \<or> e_order (r_encounter r) = Some 0)"
proof -
  have truthy: "truthy_string (filterDungeonRaidName options)"
    using assms(1,2) by simp
  from resolutionOf_found [OF assms(6)] obtain found where
    res: "res = resolve store query options found" by blast
  have "storeMaxOrder store (filterDungeonRaidName options)
          (isBossQuery_of (detectEncounterPosition query)) = 0"
    using assms(4) unfolding assms(1) by (intro storeMaxOrder_zero) auto
  then have target: "targetEncounterOrder res = Some 0"
    unfolding res
    using final_target [OF truthy isFinalBossQuery_finalQuery [OF assms(3)]] by simp
  have dropped: "\<forall>c\<in>set (searchResults res). \<forall>ord.
            resolvedOrder (store_get store (mechanicId (c_metadata c))) (c_metadata c) = Some ord \<and>
            ord \<noteq> 0 \<longrightarrow>
            processResult store (isFinalBossQuery query) (maxEncounterOrder res)
              (targetEncounterOrder res) c = None"
    unfolding target using processResult_dropped by blast
  have kept: "e_order (r_encounter r) = None \<or> e_order (r_encounter r) = Some 0"
    if "r \<in> set results" for r
  proof -
    from result_origin [OF assms(5,6) that] obtain c b where
      "processResult store (isFinalBossQuery query) (maxEncounterOrder res) (Some 0) c = Some (b, r)"
      unfolding target by blast
    from processResult_target [OF this] show ?thesis by blast
  qed
  from target dropped kept show ?thesis by blast
qed

theorem final_query_without_orders_targets_zero_witness:
  "targetEncounterOrder
     (resolve zero_order_store ''How do I beat the final boss?''
        (example_options ''Duality'' (Some 5))
        (map match_to_candidate
           [example_match ''z1'' ''Entrance Puzzle'' (Some 0) 0.5,
            example_match ''x9'' ''Unlisted add clear'' None 0.3,
            example_match ''m1'' ''Bell Puzzle'' (Some 1) 0.9])) = Some 0 \<and>
   map (\<lambda>r. (r_id r, r_score r, e_order (r_encounter r)))
     (projr (fst (retrieveRelevantMechanics example_env_zero zero_order_store
        ''How do I beat the final boss?'' (example_options ''Duality'' (Some 5))))) =
     [(''z1'', 1, Some 0), (''x9'', double_round 0.3, None)]"
proof -
  let ?q = "''How do I beat the final boss?''"
  let ?o = "example_options ''Duality'' (Some 5)"
  let ?run = "retrieveRelevantMechanics example_env_zero zero_order_store ?q ?o"
  let ?res = "resolve zero_order_store ?q ?o
        (map match_to_candidate
           [example_match ''z1'' ''Entrance Puzzle'' (Some 0) 0.5,
            example_match ''x9'' ''Unlisted add clear'' None 0.3,
            example_match ''m1'' ''Bell Puzzle'' (Some 1) 0.9])"
  have ok: "\<not> isl (fst ?run)" by code_simp
  have vals: "map (\<lambda>r. (r_id r, r_score r, e_order (r_encounter r))) (projr (fst ?run)) =
     [(''z1'', 1, Some 0), (''x9'', double_round 0.3, None)]" by code_simp
  have run: "?run = (Inr (projr (fst ?run)), snd ?run)"
    by (rule run_collapse [OF ok])
  have res: "resolutionOf example_env_zero zero_order_store ?q ?o = Some ?res"
    by (simp add: resolutionOf_def generateEmbedding_def searchSimilar_def example_env_zero_def
        example_env_def Let_def)
  have name: "filterDungeonRaidName ?o = Some ''Duality''" "''Duality'' \<noteq> []"
    by (simp_all add: filterDungeonRaidName_def example_options_def)
  have final: "isFinalBossQuery ?q" by code_simp
  have store: "\<forall>(key, s)\<in>set zero_order_store.
           d_name (s_dungeonRaid s) = ''Duality'' \<and>
           (isBossQuery_of (detectEncounterPosition ?q) = Some True \<longrightarrow>
              e_type (s_encounter s) = ''boss'') \<longrightarrow>
           e_order (s_encounter s) = None \<or> e_order (s_encounter s) = Some 0"
    by (simp add: zero_order_store_def registerMechanic_def example_encounter_def)
  from final_query_without_orders_targets_zero [OF name final store run res] vals
  show ?thesis by blast
qed

text \<open>
  The claim as stated allows only results without an encounter order. A store entry with
  order 0 is skipped when the maximum is taken (0 is falsy), so the target is 0, and the
  same entry then matches the target: it is returned, boosted, with its defined order 0.
\<close>

theorem final_query_without_orders_targets_zero_counterexample:
  "isFinalBossQuery ''How do I beat the final boss?'' \<and>
   map (\<lambda>(key, s). (key, d_name (s_dungeonRaid s), e_type (s_encounter s),
                       e_order (s_encounter s))) zero_order_store =
     [(''z1'', ''Duality'', ''boss'', Some 0)] \<and>
   map (\<lambda>r. (r_id r, r_score r, e_order (r_encounter r)))
     (projr (fst (retrieveRelevantMechanics example_env_zero zero_order_store
        ''How do I beat the final boss?'' (example_options ''Duality'' (Some 5))))) =
     [(''z1'', 1, Some 0), (''x9'', double_round 0.3, None)] \<and>
   e_order (r_encounter (hd (projr (fst (retrieveRelevantMechanics example_env_zero
        zero_order_store ''How do I beat the final boss?''
        (example_options ''Duality'' (Some 5))))))) \<noteq> None"
proof -
  let ?run = "retrieveRelevantMechanics example_env_zero zero_order_store
        ''How do I beat the final boss?'' (example_options ''Duality'' (Some 5))"
  have final: "isFinalBossQuery ''How do I beat the final boss?''" by code_simp
  have store: "map (\<lambda>(key, s). (key, d_name (s_dungeonRaid s), e_type (s_encounter s),
                       e_order (s_encounter s))) zero_order_store =
     [(''z1'', ''Duality'', ''boss'', Some 0)]" by code_simp
  have vals: "map (\<lambda>r. (r_id r, r_score r, e_order (r_encounter r))) (projr (fst ?run)) =
     [(''z1'', 1, Some 0), (''x9'', double_round 0.3, None)]" by code_simp
  have defined: "e_order (r_encounter (hd (projr (fst ?run)))) \<noteq> None" by code_simp
  from final store vals defined show ?thesis by blast
qed

text \<open>
  C6. The claim is that a second boss query leaves the target unresolved when the dungeon
  has fewer than two boss encounters with an order, and otherwise takes the second lowest
  order among the boss encounters. The code counts store entries, one for each mechanic:
  a single boss encounter (order 3) with two mechanics gives \<^verbatim>\<open>bossEncounters = [3, 3]\<close>,
  the target is resolved to 3, and the position filter and boost are applied.
\<close>

theorem second_boss_counts_mechanics:
  "map (\<lambda>(key, s). (key, e_id (s_encounter s), e_type (s_encounter s), e_order (s_encounter s)))
     single_boss_store =
     [(''m2'', ''vault'', ''encounter'', Some 2), (''m3'', ''caiatl'', ''boss'', Some 3),
      (''m4'', ''caiatl'', ''boss'', Some 3)] \<and>
   bossEncounters single_boss_store (Some ''Duality'') = [3, 3] \<and>
   initialTarget single_boss_store ''How do I beat the second boss?''
     (example_options ''Duality'' (Some 5)) = (0, Some 3) \<and>
   targetEncounterOrder (resolve single_boss_store ''How do I beat the second boss?''
     (example_options ''Duality'' (Some 5)) (map match_to_candidate example_matches)) = Some 3 \<and>
   map (\<lambda>r. (r_id r, r_score r, e_order (r_encounter r)))
     (projr (fst (retrieveRelevantMechanics example_env single_boss_store
        ''How do I beat the second boss?'' (example_options ''Duality'' (Some 5))))) =
     [(''m3'', 1, Some 3), (''m4'', double_round 0.9500000000000001, Some 3),
      (''x9'', double_round 0.3, None)]"
  by (intro conjI; code_simp)

text \<open>
  C9. A \<^verbatim>\<open>topK\<close> of 0 behaves exactly as an absent \<^verbatim>\<open>topK\<close>: the same outcome and the same
  provider calls; the index is asked for 40 matches with a dungeon filter and for 20
  without; and the returned list is the first 10 of the ranking of what the index
  returned for that request, so it is empty only when that ranking is empty.
\<close>

theorem topK_zero_is_default:
  "retrieveRelevantMechanics env store query (options\<lparr>o_topK := Some 0\<rparr>) =
     retrieveRelevantMechanics env store query (options\<lparr>o_topK := None\<rparr>) \<and>
   adjustedTopK (options\<lparr>o_topK := Some 0\<rparr>) =
     (if truthy_string (filterDungeonRaidName options) then 40 else 20) \<and>
   (\<forall>v. embeddings_create env query = Inr v \<longrightarrow>
      (\<exists>request. snd (retrieveRelevantMechanics env store query (options\<lparr>o_topK := Some 0\<rparr>)) =
           [EmbeddingsCreate query, IndexQuery request] \<and>
         q_topK request = (if truthy_string (filterDungeonRaidName options) then 40 else 20))) \<and>
   (\<forall>v ms ranked.
      embeddings_create env query = Inr v \<and>
      index_query env
        (build_request v
           (options\<lparr>o_topK :=
              Some (if truthy_string (filterDungeonRaidName options) then 40 else 20)\<rparr>)) = Inr ms \<and>
      ranked = finalResults store query
                 (resolve store query options
                    (case ms of None \<Rightarrow> [] | Some matches \<Rightarrow> map match_to_candidate matches)) \<longrightarrow>
      fst (retrieveRelevantMechanics env store query (options\<lparr>o_topK := Some 0\<rparr>)) =
        Inr (take 10 ranked) \<and>
      (take 10 ranked = [] \<longleftrightarrow> ranked = []))"
proof -
  let ?o0 = "options\<lparr>o_topK := Some 0\<rparr>" and ?oN = "options\<lparr>o_topK := None\<rparr>"
  let ?k = "if truthy_string (filterDungeonRaidName options) then 40 else 20 :: int"
  have adj: "adjustedTopK ?o0 = ?k"
    by (rule adjustedTopK_zero)
  have same: "retrieveRelevantMechanics env store query ?o0 =
     retrieveRelevantMechanics env store query ?oN"
    by (auto simp: retrieve_cases resolve_topK adjustedTopK_zero build_request_topK
        topK_or_10_def Let_def split: sum.splits)
  have call: "\<exists>request. snd (retrieveRelevantMechanics env store query ?o0) =
           [EmbeddingsCreate query, IndexQuery request] \<and> q_topK request = ?k"
    if "embeddings_create env query = Inr v" for v
    using that unfolding retrieve_cases adjustedTopK_zero
    by (auto simp: Let_def build_request_topK topK_or_10_def split: sum.splits)
  have lim: "fst (retrieveRelevantMechanics env store query ?o0) = Inr (take 10 ranked) \<and>
      (take 10 ranked = [] \<longleftrightarrow> ranked = [])"
    if e: "embeddings_create env query = Inr v"
      and i: "index_query env (build_request v (options\<lparr>o_topK := Some ?k\<rparr>)) = Inr ms"
      and r: "ranked = finalResults store query
                 (resolve store query options
                    (case ms of None \<Rightarrow> [] | Some matches \<Rightarrow> map match_to_candidate matches))"
    for v ms ranked
  proof -
    have req: "?o0\<lparr>o_topK := Some (adjustedTopK ?o0)\<rparr> = options\<lparr>o_topK := Some ?k\<rparr>"
      unfolding adj by simp
    have "fst (retrieveRelevantMechanics env store query ?o0) =
            Inr (slice0 ranked (topK_or_10 (o_topK ?o0)))"
      unfolding retrieve_cases req r resolve_topK using e i by (simp add: Let_def)
    then have "fst (retrieveRelevantMechanics env store query ?o0) = Inr (take 10 ranked)"
      by (simp add: topK_or_10_def slice0_def)
    then show ?thesis by simp
  qed
  from same adj call lim show ?thesis by blast
qed

theorem topK_zero_is_default_witness:
  "example_run ''How does it work?'' (Some 0) = example_run ''How does it work?'' None \<and>
   map r_id (projr (fst (example_run ''How does it work?'' (Some 0)))) =
     [''m2'', ''m3'', ''m1'', ''x9'', ''m4''] \<and>
   fst (retrieveRelevantMechanics example_env example_store ''How does it work?''
          (example_options_unfiltered (Some 0))) =
     Inr (take 10 (finalResults example_store ''How does it work?''
            (resolve example_store ''How does it work?'' (example_options_unfiltered None)
               (map match_to_candidate example_matches)))) \<and>
   map r_id (projr (fst (retrieveRelevantMechanics example_env example_store
          ''How does it work?'' (example_options_unfiltered (Some 0))))) =
     [''m2'', ''m3'', ''m1'', ''x9'', ''m4'']"
proof -
  let ?q = "''How does it work?''"
  have vals: "map r_id (projr (fst (example_run ?q (Some 0)))) =
     [''m2'', ''m3'', ''m1'', ''x9'', ''m4'']" by code_simp
  have vals': "map r_id (projr (fst (retrieveRelevantMechanics example_env example_store
          ?q (example_options_unfiltered (Some 0))))) =
     [''m2'', ''m3'', ''m1'', ''x9'', ''m4'']" by code_simp
  have o: "(example_options ''Duality'' None)\<lparr>o_topK := Some 0\<rparr> = example_options ''Duality'' (Some 0)"
    "(example_options ''Duality'' None)\<lparr>o_topK := None\<rparr> = example_options ''Duality'' None"
    by (simp_all add: example_options_def)
  have same: "example_run ?q (Some 0) = example_run ?q None"
    using topK_zero_is_default [of example_env example_store ?q
            "example_options ''Duality'' None"]
    unfolding o example_run_def by blast
  have u: "(example_options_unfiltered None)\<lparr>o_topK := Some 0\<rparr> = example_options_unfiltered (Some 0)"
    by (simp add: example_options_unfiltered_def)
  have e: "embeddings_create example_env ?q = Inr [0.25, 0.5]"
    by (simp add: example_env_def)
  have i: "index_query example_env
        (build_request [0.25, 0.5]
           ((example_options_unfiltered None)\<lparr>o_topK :=
              Some (if truthy_string (filterDungeonRaidName (example_options_unfiltered None))
                    then 40 else 20)\<rparr>)) = Inr (Some example_matches)"
    by (simp add: example_env_def)
  have lim: "fst (retrieveRelevantMechanics example_env example_store ?q
          (example_options_unfiltered (Some 0))) =
     Inr (take 10 (finalResults example_store ?q
            (resolve example_store ?q (example_options_unfiltered None)
               (map match_to_candidate example_matches))))"
  proof -
    note t = topK_zero_is_default [of example_env example_store ?q
            "example_options_unfiltered None", THEN conjunct2, THEN conjunct2, THEN conjunct2,
            rule_format, of "[0.25, 0.5]" "Some example_matches"]
    from t [OF conjI [OF e conjI [OF i refl]]]
    have "fst (retrieveRelevantMechanics example_env example_store ?q
          ((example_options_unfiltered None)\<lparr>o_topK := Some 0\<rparr>)) =
     Inr (take 10 (finalResults example_store ?q
            (resolve example_store ?q (example_options_unfiltered None)
               (case Some example_matches of None \<Rightarrow> []
                | Some matches \<Rightarrow> map match_to_candidate matches))))"
      by (rule conjunct1)
    then show ?thesis unfolding u by simp
  qed
  from same vals lim vals' show ?thesis by (intro conjI)
qed

text \<open>
  C3 (as amended). In every returned list, every result that received the flow boost, and
  every result that received the position boost (its candidate's resolved order is the
  target order), has a score of at most 1.0, whatever the vector index handed back,
  because each boost is clamped by \<^verbatim>\<open>Math.min\<close> with 1.0. If no score handed back by the
  index exceeds 1, no returned score exceeds 1; if no score handed back by the index is
  negative, no returned score is negative.
\<close>

theorem returned_scores_in_unit_interval:
  assumes "retrieveRelevantMechanics env store query options = (Inr results, calls)"
  shows "(\<forall>r\<in>set results. isEncounterFlowMechanic (r_mechanic r) \<longrightarrow> r_score r \<le> 1) \<and>
         (\<forall>res t. resolutionOf env store query options = Some res \<and>
            targetEncounterOrder res = Some t \<longrightarrow>
            (\<forall>r\<in>set results. e_order (r_encounter r) = Some t \<longrightarrow> r_score r \<le> 1) \<and>
            (\<forall>c\<in>set (searchResults res). \<forall>b r.
               resolvedOrder (store_get store (mechanicId (c_metadata c))) (c_metadata c) = Some t \<and>
               processResult store (isFinalBossQuery query) (maxEncounterOrder res) (Some t) c =
                 Some (b, r) \<longrightarrow> r_score r \<le> 1)) \<and>
         ((\<forall>request matches. index_query env request = Inr (Some matches) \<longrightarrow>
             (\<forall>m\<in>set matches. \<forall>x. pm_score m = Some x \<longrightarrow> x \<le> 1)) \<longrightarrow>
          (\<forall>r\<in>set results. r_score r \<le> 1)) \<and>
         ((\<forall>request matches. index_query env request = Inr (Some matches) \<longrightarrow>
             (\<forall>m\<in>set matches. \<forall>x. pm_score m = Some x \<longrightarrow> 0 \<le> x)) \<longrightarrow>
          (\<forall>r\<in>set results. 0 \<le> r_score r))"
proof -
  from retrieve_resolution [OF assms] obtain res0 where
    res0: "resolutionOf env store query options = Some res0" by blast
  have flow: "r_score r \<le> 1"
    if "r \<in> set results" "isEncounterFlowMechanic (r_mechanic r)" for r
  proof -
    from result_origin [OF assms res0 that(1)] obtain c b where
      p: "processResult store (isFinalBossQuery query) (maxEncounterOrder res0)
             (targetEncounterOrder res0) c = Some (b, r)" by blast
    from processResult_Some [OF p] obtain q where
      s: "r_score r = (if b then boost q (double_round 0.3) else q)" by blast
    from processResult_flow [OF p] that(2) have b by simp
    with s show ?thesis by (simp add: boost_le)
  qed
  have position: "(\<forall>r\<in>set results. e_order (r_encounter r) = Some t \<longrightarrow> r_score r \<le> 1) \<and>
            (\<forall>c\<in>set (searchResults res). \<forall>b r.
               resolvedOrder (store_get store (mechanicId (c_metadata c))) (c_metadata c) = Some t \<and>
               processResult store (isFinalBossQuery query) (maxEncounterOrder res) (Some t) c =
                 Some (b, r) \<longrightarrow> r_score r \<le> 1)"
    if res: "resolutionOf env store query options = Some res"
      and t: "targetEncounterOrder res = Some t" for res t
  proof -
    have a: "r_score r \<le> 1" if "r \<in> set results" "e_order (r_encounter r) = Some t" for r
    proof -
      from result_origin [OF assms res that(1)] obtain c b where
        p: "processResult store (isFinalBossQuery query) (maxEncounterOrder res) (Some t) c =
              Some (b, r)" unfolding t by blast
      from processResult_order_field [OF p that(2)] processResult_boosted_le [OF p]
      show ?thesis by blast
    qed
    have b: "\<forall>c\<in>set (searchResults res). \<forall>b r.
               resolvedOrder (store_get store (mechanicId (c_metadata c))) (c_metadata c) = Some t \<and>
               processResult store (isFinalBossQuery query) (maxEncounterOrder res) (Some t) c =
                 Some (b, r) \<longrightarrow> r_score r \<le> 1"
      using processResult_boosted_le by blast
    from a b show ?thesis by blast
  qed
  have upper: "r_score r \<le> 1"
    if prov: "\<forall>request matches. index_query env request = Inr (Some matches) \<longrightarrow>
             (\<forall>m\<in>set matches. \<forall>x. pm_score m = Some x \<longrightarrow> x \<le> 1)"
      and r: "r \<in> set results" for r
  proof -
    from result_origin [OF assms res0 r] obtain c b where
      c: "c \<in> set (searchResults res0)" and
      p: "processResult store (isFinalBossQuery query) (maxEncounterOrder res0)
             (targetEncounterOrder res0) c = Some (b, r)" by blast
    from candidate_scores [OF res0 c] have "c_score c \<le> 1"
    proof
      assume "c_score c = 1 / 2"
      then show ?thesis by simp
    next
      assume "\<exists>request matches m. index_query env request = Inr (Some matches) \<and>
         m \<in> set matches \<and> c_score c = (case pm_score m of None \<Rightarrow> 0 | Some x \<Rightarrow> x)"
      then obtain request matches m where
        m: "index_query env request = Inr (Some matches)" "m \<in> set matches"
           "c_score c = (case pm_score m of None \<Rightarrow> 0 | Some x \<Rightarrow> x)" by blast
      from prov m(1,2) have "\<forall>x. pm_score m = Some x \<longrightarrow> x \<le> 1" by blast
      then show ?thesis unfolding m(3) by (cases "pm_score m") auto
    qed
    with p show ?thesis by (rule processResult_upper)
  qed
  have lower: "0 \<le> r_score r"
    if prov: "\<forall>request matches. index_query env request = Inr (Some matches) \<longrightarrow>
             (\<forall>m\<in>set matches. \<forall>x. pm_score m = Some x \<longrightarrow> 0 \<le> x)"
      and r: "r \<in> set results" for r
  proof -
    from result_origin [OF assms res0 r] obtain c b where
      c: "c \<in> set (searchResults res0)" and
      p: "processResult store (isFinalBossQuery query) (maxEncounterOrder res0)
             (targetEncounterOrder res0) c = Some (b, r)" by blast
    from candidate_scores [OF res0 c] have "0 \<le> c_score c"
    proof
      assume "c_score c = 1 / 2"
      then show ?thesis by simp
    next
      assume "\<exists>request matches m. index_query env request = Inr (Some matches) \<and>
         m \<in> set matches \<and> c_score c = (case pm_score m of None \<Rightarrow> 0 | Some x \<Rightarrow> x)"
      then obtain request matches m where
        m: "index_query env request = Inr (Some matches)" "m \<in> set matches"
           "c_score c = (case pm_score m of None \<Rightarrow> 0 | Some x \<Rightarrow> x)" by blast
      from prov m(1,2) have "\<forall>x. pm_score m = Some x \<longrightarrow> 0 \<le> x" by blast
      then show ?thesis unfolding m(3) by (cases "pm_score m") auto
    qed
    with p show ?thesis by (rule processResult_lower)
  qed
  from flow position upper lower show ?thesis by blast
qed

theorem returned_scores_in_unit_interval_witness:
  "map (\<lambda>r. (r_id r, r_score r, e_order (r_encounter r)))
       (projr (fst (example_run ''How do I beat the final boss?'' (Some 5)))) =
     [(''m3'', 1, Some 3), (''m4'', double_round 0.9500000000000001, Some 3),
      (''x9'', double_round 0.3, None)] \<and>
   r_score (projr (fst (example_run ''How do I beat the final boss?'' (Some 5))) ! 1) \<le> 1 \<and>
   0 \<le> r_score (projr (fst (example_run ''How do I beat the final boss?'' (Some 5))) ! 1)"
proof -
  let ?q = "''How do I beat the final boss?''"
  let ?run = "example_run ?q (Some 5)"
  let ?res = "resolve example_store ?q (example_options ''Duality'' (Some 5))
                (map match_to_candidate example_matches)"
  have ok: "\<not> isl (fst ?run)" by code_simp
  have vals: "map (\<lambda>r. (r_id r, r_score r, e_order (r_encounter r))) (projr (fst ?run)) =
     [(''m3'', 1, Some 3), (''m4'', double_round 0.9500000000000001, Some 3),
      (''x9'', double_round 0.3, None)]"
    by code_simp
  have len: "length (projr (fst ?run)) = 3"
    using arg_cong [OF vals, of length] by simp
  have run: "retrieveRelevantMechanics example_env example_store ?q
                (example_options ''Duality'' (Some 5)) = (Inr (projr (fst ?run)), snd ?run)"
    using run_collapse [OF ok] by (simp add: example_run_def)
  have res: "resolutionOf example_env example_store ?q (example_options ''Duality'' (Some 5)) =
               Some ?res"
    by (simp add: resolutionOf_def generateEmbedding_def searchSimilar_def example_env_def Let_def)
  have target: "targetEncounterOrder ?res = Some 3" by code_simp
  have ord: "e_order (r_encounter (projr (fst ?run) ! 1)) = Some 3" by code_simp
  have prov: "\<forall>request matches. index_query example_env request = Inr (Some matches) \<longrightarrow>
             (\<forall>m\<in>set matches. \<forall>x. pm_score m = Some x \<longrightarrow> 0 \<le> x)"
    by (auto simp: example_env_def example_matches_def example_match_def
        intro!: double_round_nonneg)
  have mem: "projr (fst ?run) ! 1 \<in> set (projr (fst ?run))"
    using len by simp
  from returned_scores_in_unit_interval [OF run] res target ord mem
  have up: "r_score (projr (fst ?run) ! 1) \<le> 1" by blast
  from returned_scores_in_unit_interval [OF run] prov mem
  have lo: "0 \<le> r_score (projr (fst ?run) ! 1)" by blast
  from vals up lo show ?thesis by (intro conjI)
qed

text \<open>
  The claim as stated, for every returned list, fails when the index hands back a score
  outside [0, 1] for a candidate that gets no boost: a cosine similarity of -0.25 for a
  mechanic that is no flow mechanic, in a query without a position, is returned as it is.
\<close>

theorem returned_scores_in_unit_interval_counterexample:
  "\<not> isl (fst (retrieveRelevantMechanics example_env_cosine example_store ''How does it work?''
              (example_options ''Duality'' (Some 5)))) \<and>
   map (\<lambda>r. (r_id r, r_score r))
     (projr (fst (retrieveRelevantMechanics example_env_cosine example_store ''How does it work?''
              (example_options ''Duality'' (Some 5))))) = [(''m1'', - 1 / 4)] \<and>
   \<not> 0 \<le> r_score (hd (projr (fst (retrieveRelevantMechanics example_env_cosine example_store
              ''How does it work?'' (example_options ''Duality'' (Some 5))))))"
proof -
  let ?run = "retrieveRelevantMechanics example_env_cosine example_store ''How does it work?''
              (example_options ''Duality'' (Some 5))"
  have ok: "\<not> isl (fst ?run)" by code_simp
  have vals: "map (\<lambda>r. (r_id r, r_score r)) (projr (fst ?run)) = [(''m1'', - 1 / 4)]"
    by code_simp
  have neg: "\<not> 0 \<le> r_score (hd (projr (fst ?run)))" by code_simp
  from ok vals neg show ?thesis by blast
qed



end
